theory Spec2Isabelle
  imports Main
begin

section \<open>JavaScript values\<close>

text \<open>
  A value read from a parsed JSON document. \<open>None\<close> of type \<open>jsval\<close> is JavaScript's
  \<open>undefined\<close> (the value of a property that is absent). Numbers are the integers;
  strings are lists of code units below 256.
\<close>

datatype json =
    JNull
  | JBool bool
  | JNum int
  | JStr string
  | JArr "json list"
  | JObj "(string \<times> json) list"

type_synonym jsval = "json option"

text \<open>
  The exceptions of the handlers: the runtime's \<open>TypeError\<close> (a property read on
  \<open>undefined\<close> or \<open>null\<close>, a method call on a value that has no such method), the
  \<open>SyntaxError\<close> of a body that is not JSON, the store driver's refusal of a bind parameter
  (\<open>D1_TYPE_ERROR\<close>), a statement the store rejects (\<open>D1_ERROR\<close> with the store's reason),
  and \<open>throw new Error(msg)\<close> of the handlers themselves.
\<close>

datatype js_error =
    TypeError
  | SyntaxError
  | D1_TYPE_ERROR
  | D1_ERROR string
  | Error string

text \<open>
  \<open>error.message\<close>, for the body of a 500 response. The source decides the message of
  the errors it throws itself; of an exception of the runtime or the store this is the
  name of its class, which stands for a wording that is not in the source. Nothing below
  is stated about that wording.
\<close>

fun message_of :: "js_error \<Rightarrow> string" where
  "message_of TypeError = ''TypeError''"
| "message_of SyntaxError = ''SyntaxError''"
| "message_of D1_TYPE_ERROR = ''D1_TYPE_ERROR''"
| "message_of (D1_ERROR m) = m"
| "message_of (Error m) = m"

text \<open>
  \<open>v.name\<close> for the fixed property names the handlers read (none of them is \<open>length\<close> or
  an index): it throws on \<open>undefined\<close> and \<open>null\<close>, reads an own property of an object
  (\<open>JSON.parse\<close> keeps the last of duplicate keys) and is \<open>undefined\<close> on every other value.
\<close>

fun get_prop :: "jsval \<Rightarrow> string \<Rightarrow> js_error + jsval" where
  "get_prop None k = Inl TypeError"
| "get_prop (Some JNull) k = Inl TypeError"
| "get_prop (Some (JObj kvs)) k = Inr (map_of (rev kvs) k)"
| "get_prop (Some v) k = Inr None"

text \<open>\<open>v?.name\<close>: \<open>undefined\<close> on \<open>undefined\<close> and \<open>null\<close> instead of throwing.\<close>

fun get_prop_opt :: "jsval \<Rightarrow> string \<Rightarrow> jsval" where
  "get_prop_opt None k = None"
| "get_prop_opt (Some JNull) k = None"
| "get_prop_opt (Some (JObj kvs)) k = map_of (rev kvs) k"
| "get_prop_opt (Some v) k = None"

text \<open>Truthiness, as \<open>!v\<close> and \<open>v || d\<close> read it.\<close>

fun truthy :: "jsval \<Rightarrow> bool" where
  "truthy None = False"
| "truthy (Some JNull) = False"
| "truthy (Some (JBool b)) = b"
| "truthy (Some (JNum n)) = (n \<noteq> 0)"
| "truthy (Some (JStr s)) = (s \<noteq> [])"
| "truthy (Some v) = True"

definition or_else :: "jsval \<Rightarrow> json \<Rightarrow> jsval" where
  "or_else v d = (if truthy v then v else Some d)"

text \<open>
  A template literal \<open>`${v}`\<close> turns \<open>v\<close> into a string. That throws a \<open>TypeError\<close> for an
  object with an own property \<open>toString\<close> (a parsed JSON value is never a function, and
  the inherited \<open>valueOf\<close> gives the object back) and for an array with such an element;
  every other parsed value, and \<open>undefined\<close>, has a string.
\<close>

fun toString_throws :: "json \<Rightarrow> bool" where
  "toString_throws (JObj kvs) = (map_of (rev kvs) ''toString'' \<noteq> None)"
| "toString_throws (JArr xs) = list_ex toString_throws xs"
| "toString_throws v = False"

text \<open>\<open>console.log\<close> of a template literal with the values \<open>vs\<close>.\<close>

definition console_log :: "jsval list \<Rightarrow> js_error + unit" where
  "console_log vs =
     (if list_ex (\<lambda>v. case v of None \<Rightarrow> False | Some j \<Rightarrow> toString_throws j) vs
      then Inl TypeError else Inr ())"

text \<open>\<open>s.toLowerCase()\<close> on code units below 256: A-Z and the Latin-1 capitals.\<close>

definition lower_char :: "char \<Rightarrow> char" where
  "lower_char c =
     (let n = (of_char c :: nat)
      in if (65 \<le> n \<and> n \<le> 90) \<or> (192 \<le> n \<and> n \<le> 222 \<and> n \<noteq> 215)
         then char_of (n + 32) else c)"

definition toLowerCase :: "string \<Rightarrow> string" where
  "toLowerCase s = map lower_char s"


section \<open>The relational store\<close>

text \<open>
  A value bound to a statement or held in a column of no fixed type: NULL, a number,
  a text, or a blob of bytes.
\<close>

datatype sqlval = SNull | SNum int | SText string | SBlob "int list"

text \<open>
  The tables of the schema that the handlers read and write, one record per row, the
  columns under their own names. Columns that only ever receive values of one type hold
  that type (\<open>None\<close> is SQL NULL); columns written from a webhook payload hold a \<open>sqlval\<close>.
\<close>

record users_row =
  u_id :: int
  u_email :: string
  u_first_name :: string
  u_last_name :: string
  u_password_hash :: "string option"
  u_square_customer_id :: "string option"
  u_subscription_active :: bool
  u_email_verified :: bool
  u_created_at :: string
  u_updated_at :: "string option"
  u_last_login_at :: "string option"

record subscriptions_row =
  s_id :: int
  s_user_id :: int
  s_square_subscription_id :: "string option"
  s_plan_type :: string
  s_status :: sqlval
  s_price_amount :: int
  s_currency :: string
  s_frequency :: string
  s_started_at :: "string option"
  s_ended_at :: "string option"
  s_created_at :: string
  s_updated_at :: "string option"

record payments_row =
  p_id :: int
  p_user_id :: int
  p_subscription_id :: sqlval
  p_amount :: sqlval
  p_currency :: sqlval
  p_status :: string
  p_square_payment_id :: sqlval
  p_failure_reason :: "string option"
  p_created_at :: string

record user_sessions_row =
  ss_id :: int
  ss_user_id :: int
  ss_session_token :: string
  ss_expires_at :: string
  ss_created_at :: string
  ss_last_used_at :: "string option"
  ss_ip_address :: "string option"
  ss_user_agent :: "string option"

text \<open>
  The store: its tables in insertion order, and what the source does not decide.
  \<^item> \<open>faults\<close>: whether each coming statement is lost to the store (an outage, a timeout):
    a statement consumes the head, \<open>True\<close> makes it throw; the empty list is a healthy store.
  \<^item> \<open>now\<close>, \<open>now_plus_7_days\<close>: what \<open>datetime('now')\<close> and \<open>datetime('now', '+7 days')\<close> give.
  \<^item> \<open>number_text\<close>: the text the store makes of a bound number where a TEXT column
    keeps it or is compared with it.
\<close>

record db =
  users :: "users_row list"
  subscriptions :: "subscriptions_row list"
  payments :: "payments_row list"
  user_sessions :: "user_sessions_row list"
  faults :: "bool list"
  now :: string
  now_plus_7_days :: string
  number_text :: "int \<Rightarrow> string"

text \<open>
  \<open>.bind(v)\<close>, the driver's conversion of one parameter: a string, a number and \<open>null\<close>
  as they are, a boolean as 1 or 0, an array of bytes as a blob; \<open>undefined\<close> and every
  other object are refused with \<open>D1_TYPE_ERROR\<close> before the statement is sent.
\<close>

fun byte_of :: "json \<Rightarrow> int option" where
  "byte_of (JNum n) = (if 0 \<le> n \<and> n < 256 then Some n else None)"
| "byte_of v = None"

fun bind_value :: "jsval \<Rightarrow> js_error + sqlval" where
  "bind_value None = Inl D1_TYPE_ERROR"
| "bind_value (Some JNull) = Inr SNull"
| "bind_value (Some (JBool b)) = Inr (SNum (if b then 1 else 0))"
| "bind_value (Some (JNum n)) = Inr (SNum n)"
| "bind_value (Some (JStr s)) = Inr (SText s)"
| "bind_value (Some (JArr xs)) =
     (if list_all (\<lambda>x. byte_of x \<noteq> None) xs
      then Inr (SBlob (map (\<lambda>x. the (byte_of x)) xs)) else Inl D1_TYPE_ERROR)"
| "bind_value (Some (JObj kvs)) = Inl D1_TYPE_ERROR"

text \<open>
  What a TEXT column makes of a value, to keep it or to compare with it: a number
  becomes its text, everything else stays.
\<close>

fun as_text :: "db \<Rightarrow> sqlval \<Rightarrow> sqlval" where
  "as_text d (SNum n) = SText (number_text d n)"
| "as_text d v = v"

text \<open>\<open>a = b\<close> in a WHERE clause: never true on NULL.\<close>

definition sql_eq :: "sqlval \<Rightarrow> sqlval \<Rightarrow> bool" where
  "sql_eq a b = (a \<noteq> SNull \<and> b \<noteq> SNull \<and> a = b)"

fun text_col :: "string option \<Rightarrow> sqlval" where
  "text_col None = SNull"
| "text_col (Some s) = SText s"

text \<open>\<open>column = ?\<close> for a TEXT column that holds \<open>c\<close> and the bound value \<open>v\<close>.\<close>

definition text_eq :: "db \<Rightarrow> string option \<Rightarrow> sqlval \<Rightarrow> bool" where
  "text_eq d c v = sql_eq (text_col c) (as_text d v)"

text \<open>The next AUTOINCREMENT key of a table whose keys are \<open>ids\<close> (rows are never deleted).\<close>

definition next_id :: "int list \<Rightarrow> int" where
  "next_id ids = fold max ids 0 + 1"

text \<open>
  Running one statement: it is lost if the store says so, and otherwise either rejected
  (the tables stay as they were) or carried out.
\<close>

definition run_stmt :: "(db \<Rightarrow> js_error + ('a \<times> db)) \<Rightarrow> db \<Rightarrow> (js_error + 'a) \<times> db" where
  "run_stmt stmt d =
     (case faults d of
        True # fs \<Rightarrow> (Inl (D1_ERROR ''store unavailable''), d\<lparr>faults := fs\<rparr>)
      | False # fs \<Rightarrow>
          (case stmt (d\<lparr>faults := fs\<rparr>) of
             Inl e \<Rightarrow> (Inl e, d\<lparr>faults := fs\<rparr>)
           | Inr (r, d') \<Rightarrow> (Inr r, d'))
      | [] \<Rightarrow>
          (case stmt d of
             Inl e \<Rightarrow> (Inl e, d)
           | Inr (r, d') \<Rightarrow> (Inr r, d')))"

text \<open>
  Sequencing inside a \<open>try\<close> block: the first exception ends the block, the store as it
  is at that moment.
\<close>

type_synonym 'a io = "db \<Rightarrow> (js_error + 'a) \<times> db"

definition await_then :: "'a io \<Rightarrow> ('a \<Rightarrow> 'b io) \<Rightarrow> 'b io" where
  "await_then m f d = (case m d of (Inl e, d1) \<Rightarrow> (Inl e, d1) | (Inr x, d1) \<Rightarrow> f x d1)"

definition eval_js :: "js_error + 'a \<Rightarrow> 'a io" where
  "eval_js r d = (r, d)"


section \<open>Responses\<close>

record user_view =
  v_id :: int
  v_email :: string
  v_firstName :: string
  v_lastName :: string
  v_subscriptionActive :: bool

record subscription_view =
  sv_planType :: string
  sv_frequency :: string
  sv_status :: sqlval

record created_subscription_view =
  cs_id :: string
  cs_planType :: string
  cs_planName :: "string option"
  cs_frequency :: "string option"
  cs_price :: "int option"
  cs_currency :: string
  cs_status :: string
  cs_startDate :: string

record created_user_view =
  cu_id :: int
  cu_email :: string
  cu_squareCustomerId :: string

datatype payload =
    NoPayload
  | RegisterPayload user_view string string
  | LoginPayload user_view "subscription_view option" string string
  | SubscriptionPayload created_subscription_view created_user_view

text \<open>The JSON envelope and the HTTP status of a \<open>Response\<close>.\<close>

record response =
  r_status :: nat
  r_success :: bool
  r_error :: "string option"
  r_message :: "string option"
  r_payload :: payload

definition failure :: "nat \<Rightarrow> string \<Rightarrow> response" where
  "failure st msg =
     \<lparr>r_status = st, r_success = False, r_error = Some msg, r_message = None,
      r_payload = NoPayload\<rparr>"

definition processed :: "string \<Rightarrow> response" where
  "processed msg =
     \<lparr>r_status = 200, r_success = True, r_error = None, r_message = Some msg,
      r_payload = NoPayload\<rparr>"


section \<open>The webhook handler\<close>

subsection \<open>Its statements\<close>

text \<open>\<open>SELECT id FROM users WHERE square_customer_id = ?\<close>, \<open>.first()\<close>.\<close>

definition select_user_id_by_square_customer_id :: "jsval \<Rightarrow> int option io" where
  "select_user_id_by_square_customer_id customerId d =
     (case bind_value customerId of
        Inl e \<Rightarrow> (Inl e, d)
      | Inr c \<Rightarrow>
          run_stmt (\<lambda>d. Inr (map_option u_id
            (find (\<lambda>u. text_eq d (u_square_customer_id u) c) (users d)), d)) d)"

text \<open>
  \<open>UPDATE subscriptions SET status = 'ACTIVE', square_subscription_id = ?
  WHERE user_id = ? AND square_subscription_id = ?\<close>, the reference bound twice: the
  reference written to a row is the one the row was found by, so only the status changes.
\<close>

definition update_subscription_active :: "jsval \<Rightarrow> int \<Rightarrow> unit io" where
  "update_subscription_active subscriptionId userId d =
     (case bind_value subscriptionId of
        Inl e \<Rightarrow> (Inl e, d)
      | Inr sid \<Rightarrow>
          run_stmt (\<lambda>d. Inr ((), d\<lparr>subscriptions :=
            map (\<lambda>r. if s_user_id r = userId \<and> text_eq d (s_square_subscription_id r) sid
                      then r\<lparr>s_status := SText ''ACTIVE''\<rparr>
                      else r) (subscriptions d)\<rparr>)) d)"

text \<open>
  \<open>UPDATE subscriptions SET status = ?, updated_at = datetime("now")
  WHERE square_subscription_id = ?\<close>; \<open>status\<close> is a TEXT column and NOT NULL.
\<close>

definition update_subscription_status :: "jsval \<Rightarrow> jsval \<Rightarrow> unit io" where
  "update_subscription_status status subscriptionId d =
     (case (bind_value status, bind_value subscriptionId) of
        (Inr st, Inr sid) \<Rightarrow>
          run_stmt (\<lambda>d.
            if st = SNull
               \<and> list_ex (\<lambda>r. text_eq d (s_square_subscription_id r) sid) (subscriptions d)
            then Inl (D1_ERROR ''NOT NULL constraint failed: subscriptions.status'')
            else Inr ((), d\<lparr>subscriptions :=
              map (\<lambda>r. if text_eq d (s_square_subscription_id r) sid
                        then r\<lparr>s_status := as_text d st, s_updated_at := Some (now d)\<rparr>
                        else r) (subscriptions d)\<rparr>)) d
      | _ \<Rightarrow> (Inl D1_TYPE_ERROR, d))"

text \<open>
  \<open>SELECT user_id FROM subscriptions WHERE square_subscription_id = ?\<close>, \<open>.first()\<close>:
  the result has the one column \<open>user_id\<close>.
\<close>

definition select_subscription_user_id :: "jsval \<Rightarrow> int option io" where
  "select_subscription_user_id subscriptionId d =
     (case bind_value subscriptionId of
        Inl e \<Rightarrow> (Inl e, d)
      | Inr sid \<Rightarrow>
          run_stmt (\<lambda>d. Inr (map_option s_user_id
            (find (\<lambda>r. text_eq d (s_square_subscription_id r) sid) (subscriptions d)), d)) d)"

text \<open>\<open>UPDATE users SET subscription_active = ? WHERE id = ?\<close>.\<close>

definition update_user_subscription_active :: "bool \<Rightarrow> int \<Rightarrow> unit io" where
  "update_user_subscription_active b userId =
     run_stmt (\<lambda>d. Inr ((), d\<lparr>users :=
       map (\<lambda>u. if u_id u = userId then u\<lparr>u_subscription_active := b\<rparr> else u)
         (users d)\<rparr>))"

text \<open>
  \<open>INSERT INTO payments (user_id, subscription_id, amount, currency, status,
  square_payment_id, created_at) VALUES (?, ?, ?, ?, ?, ?, datetime("now"))\<close>, the
  parameters bound first: one that the driver refuses ends the call before the statement
  is sent. The column \<open>failure_reason\<close> is not in the list and takes its default NULL;
  \<open>amount\<close> is NOT NULL. Rows are never deleted and \<open>user_id\<close> is read from a subscription
  row, so the foreign key holds and is not checked here.
\<close>

definition insert_payment ::
  "int \<Rightarrow> jsval \<Rightarrow> jsval \<Rightarrow> jsval \<Rightarrow> string \<Rightarrow> jsval \<Rightarrow> unit io" where
  "insert_payment userId subscriptionId amount currency status paymentId d =
     (case (bind_value subscriptionId, bind_value amount, bind_value currency,
            bind_value paymentId) of
        (Inr sid, Inr a, Inr c, Inr pid) \<Rightarrow>
          run_stmt (\<lambda>d.
            if a = SNull then Inl (D1_ERROR ''NOT NULL constraint failed: payments.amount'')
            else Inr ((), d\<lparr>payments := payments d @
              [\<lparr>p_id = next_id (map p_id (payments d)), p_user_id = userId,
                p_subscription_id = as_text d sid, p_amount = a, p_currency = as_text d c,
                p_status = status, p_square_payment_id = as_text d pid,
                p_failure_reason = None, p_created_at = now d\<rparr>]\<rparr>)) d
      | _ \<Rightarrow> (Inl D1_TYPE_ERROR, d))"

subsection \<open>The handlers of the four event types\<close>

text \<open>\<open>webhookEvent.data.object.name\<close>.\<close>

definition event_object :: "json \<Rightarrow> string \<Rightarrow> js_error + jsval" where
  "event_object webhookEvent name =
     (case get_prop (Some webhookEvent) ''data'' of
        Inl e \<Rightarrow> Inl e
      | Inr dt \<Rightarrow>
          (case get_prop dt ''object'' of
             Inl e \<Rightarrow> Inl e
           | Inr ob \<Rightarrow> get_prop ob name))"

text \<open>
  Each of the four is a \<open>try\<close> block, given here under a name of its own, and a \<open>catch\<close>
  that answers status 500 with \<open>error.message\<close>. Where a block reads a second property
  of a value it has already read one from, the read cannot throw and is written with
  \<open>get_prop_opt\<close>. The \<open>console.log\<close> calls that put a value of the event into a template
  literal are steps of the block; the others log numbers of the store and cannot throw.
\<close>

definition catch_500 :: "(js_error + response) \<times> db \<Rightarrow> response \<times> db" where
  "catch_500 r =
     (case r of
        (Inl e, d) \<Rightarrow> (failure 500 (message_of e), d)
      | (Inr resp, d) \<Rightarrow> (resp, d))"

definition subscription_created_try :: "json \<Rightarrow> response io" where
  "subscription_created_try webhookEvent =
     await_then (eval_js (event_object webhookEvent ''subscription'')) (\<lambda>subscription.
     await_then (eval_js (get_prop subscription ''customerId'')) (\<lambda>customerId.
     await_then (eval_js (console_log [get_prop_opt subscription ''id'', customerId])) (\<lambda>_.
     await_then (select_user_id_by_square_customer_id customerId) (\<lambda>user.
       case user of
         Some userId \<Rightarrow>
           await_then (update_subscription_active
                         (get_prop_opt subscription ''id'') userId) (\<lambda>_.
           eval_js (Inr (processed ''Subscription created webhook processed'')))
       | None \<Rightarrow>
           eval_js (Inr (processed ''Subscription created webhook processed''))))))"

definition handleSubscriptionCreatedWebhook :: "json \<Rightarrow> db \<Rightarrow> response \<times> db" where
  "handleSubscriptionCreatedWebhook webhookEvent d = catch_500 (subscription_created_try webhookEvent d)"

definition subscription_updated_try :: "json \<Rightarrow> response io" where
  "subscription_updated_try webhookEvent =
     await_then (eval_js (event_object webhookEvent ''subscription'')) (\<lambda>subscription.
     await_then (eval_js (get_prop subscription ''status'')) (\<lambda>status.
     await_then (eval_js (console_log [get_prop_opt subscription ''id'', status])) (\<lambda>_.
     await_then (update_subscription_status status
                   (get_prop_opt subscription ''id'')) (\<lambda>_.
       if status = Some (JStr ''CANCELED'') \<or> status = Some (JStr ''PAUSED'')
       then
         await_then (select_subscription_user_id
                       (get_prop_opt subscription ''id'')) (\<lambda>subscription_record.
           case subscription_record of
             Some user_id \<Rightarrow>
               await_then (update_user_subscription_active False user_id) (\<lambda>_.
               eval_js (Inr (processed ''Subscription updated webhook processed'')))
           | None \<Rightarrow>
               eval_js (Inr (processed ''Subscription updated webhook processed'')))
       else eval_js (Inr (processed ''Subscription updated webhook processed''))))))"

definition handleSubscriptionUpdatedWebhook :: "json \<Rightarrow> db \<Rightarrow> response \<times> db" where
  "handleSubscriptionUpdatedWebhook webhookEvent d = catch_500 (subscription_updated_try webhookEvent d)"

text \<open>\<open>invoice.totalMoney?.amount || 0\<close> and \<open>invoice.totalMoney?.currency || 'GBP'\<close>.\<close>

definition invoice_amount :: "jsval \<Rightarrow> jsval" where
  "invoice_amount invoice =
     or_else (get_prop_opt (get_prop_opt invoice ''totalMoney'') ''amount'') (JNum 0)"

definition invoice_currency :: "jsval \<Rightarrow> jsval" where
  "invoice_currency invoice =
     or_else (get_prop_opt (get_prop_opt invoice ''totalMoney'') ''currency'') (JStr ''GBP'')"

text \<open>
  In both payment handlers the row read from \<open>subscriptions\<close> has the one column
  \<open>user_id\<close>, so the \<open>subscription.square_subscription_id\<close> bound as the payment's
  \<open>subscription_id\<close> is \<open>undefined\<close>, which the driver refuses.
\<close>

definition payment_success_try :: "json \<Rightarrow> response io" where
  "payment_success_try webhookEvent =
     await_then (eval_js (event_object webhookEvent ''invoice'')) (\<lambda>invoice.
     await_then (eval_js (get_prop invoice ''subscriptionId'')) (\<lambda>subscriptionId.
     await_then (eval_js (console_log [subscriptionId])) (\<lambda>_.
     await_then (select_subscription_user_id subscriptionId) (\<lambda>subscription.
       case subscription of
         Some user_id \<Rightarrow>
           await_then (update_user_subscription_active True user_id) (\<lambda>_.
           await_then (insert_payment user_id None (invoice_amount invoice)
                         (invoice_currency invoice) ''SUCCESS''
                         (get_prop_opt invoice ''id'')) (\<lambda>_.
           eval_js (Inr (processed ''Payment success webhook processed''))))
       | None \<Rightarrow> eval_js (Inr (processed ''Payment success webhook processed''))))))"

definition handlePaymentSuccessWebhook :: "json \<Rightarrow> db \<Rightarrow> response \<times> db" where
  "handlePaymentSuccessWebhook webhookEvent d = catch_500 (payment_success_try webhookEvent d)"

definition payment_failed_try :: "json \<Rightarrow> response io" where
  "payment_failed_try webhookEvent =
     await_then (eval_js (event_object webhookEvent ''invoice'')) (\<lambda>invoice.
     await_then (eval_js (get_prop invoice ''subscriptionId'')) (\<lambda>subscriptionId.
     await_then (eval_js (console_log [subscriptionId])) (\<lambda>_.
     await_then (select_subscription_user_id subscriptionId) (\<lambda>subscription.
       case subscription of
         Some user_id \<Rightarrow>
           await_then (insert_payment user_id None (invoice_amount invoice)
                         (invoice_currency invoice) ''FAILED''
                         (get_prop_opt invoice ''id'')) (\<lambda>_.
           eval_js (Inr (processed ''Payment failure webhook processed'')))
       | None \<Rightarrow> eval_js (Inr (processed ''Payment failure webhook processed''))))))"

definition handlePaymentFailedWebhook :: "json \<Rightarrow> db \<Rightarrow> response \<times> db" where
  "handlePaymentFailedWebhook webhookEvent d = catch_500 (payment_failed_try webhookEvent d)"

subsection \<open>The dispatcher\<close>

text \<open>
  The request of \<open>POST /api/square-webhook\<close>: the \<open>x-square-signature\<close> header (\<open>None\<close>
  when the request has none) and what \<open>JSON.parse\<close> makes of the body (\<open>None\<close> when it
  throws). The signature is read and compared with nothing. The read of the event's
  type and the log of it are in the outer \<open>try\<close>, whose \<open>catch\<close> answers 500 with a
  fixed message.
\<close>

record webhook_request =
  wr_signature :: "string option"
  wr_body :: "json option"

definition onRequestPost_webhook :: "webhook_request \<Rightarrow> db \<Rightarrow> response \<times> db" where
  "onRequestPost_webhook request d =
     (if wr_signature request = None \<or> wr_signature request = Some []
      then (failure 400 ''Missing webhook signature'', d)
      else
        (case wr_body request of
           None \<Rightarrow> (failure 400 ''Invalid JSON in webhook body'', d)
         | Some webhookEvent \<Rightarrow>
             (case get_prop (Some webhookEvent) ''type'' of
                Inl e \<Rightarrow> (failure 500 ''Internal server error'', d)
              | Inr ty \<Rightarrow>
                  if console_log [ty] \<noteq> Inr ()
                  then (failure 500 ''Internal server error'', d)
                  else if ty = Some (JStr ''subscription.created'')
                  then handleSubscriptionCreatedWebhook webhookEvent d
                  else if ty = Some (JStr ''subscription.updated'')
                  then handleSubscriptionUpdatedWebhook webhookEvent d
                  else if ty = Some (JStr ''invoice.payment_made'')
                  then handlePaymentSuccessWebhook webhookEvent d
                  else if ty = Some (JStr ''invoice.payment_failed'')
                  then handlePaymentFailedWebhook webhookEvent d
                  else (processed ''Webhook received but not handled'', d))))"

section \<open>Registration and login\<close>

text \<open>
  The libraries and the environment of one request: \<open>env.JWT_SECRET\<close>, \<open>bcrypt.hash\<close>,
  what \<open>bcrypt.compare\<close> makes of a password and a hash that are both strings (a verdict,
  or an exception), \<open>jwt.sign\<close> of the claims \<open>userId\<close> and \<open>email\<close> under a secret with
  the expiry \<open>7d\<close>, and the value of \<open>crypto.randomUUID()\<close>. Their code is not part of
  the repository; the handlers are verified for whatever they compute.
\<close>

record auth_env =
  JWT_SECRET :: "string option"
  bcrypt_hash :: "string \<Rightarrow> nat \<Rightarrow> string"
  bcrypt_compare :: "string \<Rightarrow> string \<Rightarrow> js_error + bool"
  jwt_sign :: "int \<Rightarrow> string \<Rightarrow> string \<Rightarrow> string"
  randomUUID :: string

text \<open>\<open>env.JWT_SECRET || 'your-secret-key'\<close>.\<close>

definition jwt_secret :: "auth_env \<Rightarrow> string" where
  "jwt_secret env =
     (case JWT_SECRET env of
        None \<Rightarrow> ''your-secret-key''
      | Some s \<Rightarrow> if s = [] then ''your-secret-key'' else s)"

text \<open>
  The body of a registration request after \<open>request.json()\<close>: each field a string,
  or absent.
\<close>

record person_data =
  email :: "string option"
  firstName :: "string option"
  lastName :: "string option"

record user_data = person_data +
  password :: "string option"

text \<open>\<open>!v\<close> on a field: absent, or the empty string.\<close>

definition absent :: "string option \<Rightarrow> bool" where
  "absent v = (v = None \<or> v = Some [])"

text \<open>The string of a field; the handlers read it only where \<open>!v\<close> was false.\<close>

fun str :: "string option \<Rightarrow> string" where
  "str None = []"
| "str (Some s) = s"

text \<open>\<open>names.join(', ')\<close>.\<close>

fun join_comma :: "string list \<Rightarrow> string" where
  "join_comma [] = []"
| "join_comma [x] = x"
| "join_comma (x # y # ys) = x @ '', '' @ join_comma (y # ys)"

text \<open>\<open>requiredFields.filter(field => !data[field])\<close>, fields as (name, value) pairs.\<close>

definition missing_fields :: "(string \<times> string option) list \<Rightarrow> string list" where
  "missing_fields kvs = map fst (filter (\<lambda>kv. absent (snd kv)) kvs)"

text \<open>
  \<open>/^[^\s@]+@[^\s@]+\.[^\s@]+$/.test(s)\<close>: one \<open>@\<close>, no white space, something before
  the \<open>@\<close>, and after it a dot that is neither first nor last.
\<close>

definition is_space :: "char \<Rightarrow> bool" where
  "is_space c = ((of_char c :: nat) \<in> set [9, 10, 11, 12, 13, 32, 160])"

definition emailRegex_test :: "string \<Rightarrow> bool" where
  "emailRegex_test s =
     (let local = takeWhile (\<lambda>c. c \<noteq> CHR ''@'') s;
          rest = dropWhile (\<lambda>c. c \<noteq> CHR ''@'') s
      in local \<noteq> [] \<and> list_all (\<lambda>c. \<not> is_space c) local \<and> rest \<noteq> []
         \<and> list_all (\<lambda>c. \<not> is_space c \<and> c \<noteq> CHR ''@'') (tl rest)
         \<and> CHR ''.'' \<in> set (butlast (tl (tl rest))))"

subsection \<open>Statements\<close>

text \<open>\<open>SELECT ... FROM users WHERE email = ?\<close>, \<open>.first()\<close>.\<close>

definition select_user_by_email :: "string \<Rightarrow> users_row option io" where
  "select_user_by_email e = run_stmt (\<lambda>d. Inr (find (\<lambda>u. u_email u = e) (users d), d))"

text \<open>
  \<open>INSERT INTO users (email, first_name, last_name[, password_hash], created_at)
  VALUES (...) RETURNING ...\<close>, \<open>.first()\<close>: \<open>email\<close> is UNIQUE; the other columns take
  their defaults.
\<close>

definition insert_user ::
  "string \<Rightarrow> string \<Rightarrow> string \<Rightarrow> string option \<Rightarrow> users_row option io" where
  "insert_user e fn ln hash =
     run_stmt (\<lambda>d.
       if list_ex (\<lambda>u. u_email u = e) (users d)
       then Inl (D1_ERROR ''UNIQUE constraint failed: users.email'')
       else
         (let row = \<lparr>u_id = next_id (map u_id (users d)), u_email = e, u_first_name = fn,
                     u_last_name = ln, u_password_hash = hash, u_square_customer_id = None,
                     u_subscription_active = False, u_email_verified = False,
                     u_created_at = now d, u_updated_at = None, u_last_login_at = None\<rparr>
          in Inr (Some row, d\<lparr>users := users d @ [row]\<rparr>)))"

text \<open>
  \<open>INSERT INTO user_sessions (user_id, session_token, expires_at, created_at[, last_used_at])\<close>:
  \<open>session_token\<close> is UNIQUE; login also writes \<open>last_used_at\<close>.
\<close>

definition insert_session :: "int \<Rightarrow> string \<Rightarrow> bool \<Rightarrow> unit io" where
  "insert_session userId token withLastUsed =
     run_stmt (\<lambda>d.
       if list_ex (\<lambda>r. ss_session_token r = token) (user_sessions d)
       then Inl (D1_ERROR ''UNIQUE constraint failed: user_sessions.session_token'')
       else Inr ((), d\<lparr>user_sessions := user_sessions d @
         [\<lparr>ss_id = next_id (map ss_id (user_sessions d)), ss_user_id = userId,
           ss_session_token = token, ss_expires_at = now_plus_7_days d,
           ss_created_at = now d,
           ss_last_used_at = (if withLastUsed then Some (now d) else None),
           ss_ip_address = None, ss_user_agent = None\<rparr>]\<rparr>))"

text \<open>\<open>UPDATE users SET last_login_at = datetime("now") WHERE id = ?\<close>.\<close>

definition update_last_login :: "int \<Rightarrow> unit io" where
  "update_last_login userId =
     run_stmt (\<lambda>d. Inr ((), d\<lparr>users :=
       map (\<lambda>u. if u_id u = userId then u\<lparr>u_last_login_at := Some (now d)\<rparr> else u)
         (users d)\<rparr>))"

text \<open>\<open>SELECT ... FROM subscriptions WHERE user_id = ? AND status = 'ACTIVE'\<close>, \<open>.first()\<close>.\<close>

definition select_active_subscription :: "int \<Rightarrow> subscriptions_row option io" where
  "select_active_subscription userId =
     run_stmt (\<lambda>d. Inr (find (\<lambda>r. s_user_id r = userId \<and> s_status r = SText ''ACTIVE'')
                           (subscriptions d), d))"

subsection \<open>handleUserRegistration\<close>

text \<open>The \<open>catch\<close> of the registration and login handlers: a fixed message.\<close>

definition catch_internal :: "(js_error + response) \<times> db \<Rightarrow> response \<times> db" where
  "catch_internal r =
     (case r of
        (Inl e, d) \<Rightarrow> (failure 500 ''Internal server error'', d)
      | (Inr resp, d) \<Rightarrow> (resp, d))"

text \<open>
  The statements of one request are not one transaction. \<open>others\<close> is what other requests
  commit between this request's check for an existing user and its insert; a request that
  runs alone has \<open>others = id\<close>.
\<close>

definition registration_try ::
  "(db \<Rightarrow> db) \<Rightarrow> auth_env \<Rightarrow> user_data option \<Rightarrow> response io" where
  "registration_try others env body =
     (case body of
        None \<Rightarrow> eval_js (Inl SyntaxError)
      | Some userData \<Rightarrow>
          (let missing = missing_fields
                 [(''email'', email userData), (''firstName'', firstName userData),
                  (''lastName'', lastName userData), (''password'', password userData)]
           in if missing \<noteq> []
              then eval_js (Inr (failure 400
                     (''Missing required fields: '' @ join_comma missing)))
              else if \<not> emailRegex_test (str (email userData))
              then eval_js (Inr (failure 400 ''Invalid email format''))
              else if length (str (password userData)) < 8
              then eval_js (Inr (failure 400
                     ''Password must be at least 8 characters long''))
              else
                await_then (select_user_by_email (toLowerCase (str (email userData))))
                  (\<lambda>existingUser.
                case existingUser of
                  Some u \<Rightarrow>
                    eval_js (Inr (failure 409 ''User already exists with this email''))
                | None \<Rightarrow>
                    (\<lambda>d.
                      (await_then
                         (insert_user (toLowerCase (str (email userData)))
                            (str (firstName userData)) (str (lastName userData))
                            (Some (bcrypt_hash env (str (password userData)) 12)))
                         (\<lambda>userResult.
                       case userResult of
                         None \<Rightarrow> eval_js (Inl (Error ''Failed to create user''))
                       | Some row \<Rightarrow>
                           await_then (insert_session (u_id row) (randomUUID env) False)
                             (\<lambda>_.
                           eval_js (Inr
                             \<lparr>r_status = 201, r_success = True, r_error = None,
                              r_message = Some ''User registered successfully'',
                              r_payload = RegisterPayload
                                \<lparr>v_id = u_id row, v_email = u_email row,
                                 v_firstName = u_first_name row,
                                 v_lastName = u_last_name row,
                                 v_subscriptionActive = False\<rparr>
                                (jwt_sign env (u_id row) (u_email row) (jwt_secret env))
                                (randomUUID env)\<rparr>))))
                        (others d)))))"

definition handleUserRegistration ::
  "(db \<Rightarrow> db) \<Rightarrow> auth_env \<Rightarrow> user_data option \<Rightarrow> db \<Rightarrow> response \<times> db" where
  "handleUserRegistration others env body d = catch_internal (registration_try others env body d)"

subsection \<open>handleUserLogin\<close>

text \<open>
  The body of a login request is read as the JSON value it is: the handler tests its
  fields for truthiness alone. \<open>v.toLowerCase()\<close> is a string's method; on every other
  truthy value of a parsed body the call throws a \<open>TypeError\<close>.
\<close>

fun call_toLowerCase :: "jsval \<Rightarrow> js_error + string" where
  "call_toLowerCase (Some (JStr s)) = Inr (toLowerCase s)"
| "call_toLowerCase v = Inl TypeError"

text \<open>
  \<open>bcrypt.compare(password, user.password_hash)\<close>: the library rejects the call
  (\<open>Illegal arguments\<close>) unless both arguments are strings, so also for a user whose
  \<open>password_hash\<close> is NULL.
\<close>

fun compare_password :: "auth_env \<Rightarrow> jsval \<Rightarrow> string option \<Rightarrow> js_error + bool" where
  "compare_password env (Some (JStr p)) (Some h) = bcrypt_compare env p h"
| "compare_password env v h = Inl (Error ''Illegal arguments'')"

definition login_try :: "auth_env \<Rightarrow> json option \<Rightarrow> response io" where
  "login_try env body =
     (case body of
        None \<Rightarrow> eval_js (Inl SyntaxError)
      | Some loginData \<Rightarrow>
          await_then (eval_js (get_prop (Some loginData) ''email'')) (\<lambda>email.
          if \<not> truthy email \<or> \<not> truthy (get_prop_opt (Some loginData) ''password'')
          then eval_js (Inr (failure 400 ''Email and password are required''))
          else
            await_then (eval_js (call_toLowerCase email)) (\<lambda>lowered.
            await_then (select_user_by_email lowered) (\<lambda>user.
            case user of
              None \<Rightarrow> eval_js (Inr (failure 401 ''Invalid email or password''))
            | Some u \<Rightarrow>
                await_then (eval_js (compare_password env
                                       (get_prop_opt (Some loginData) ''password'')
                                       (u_password_hash u))) (\<lambda>passwordValid.
                if \<not> passwordValid
                then eval_js (Inr (failure 401 ''Invalid email or password''))
                else
                  await_then (update_last_login (u_id u)) (\<lambda>_.
                  await_then (insert_session (u_id u) (randomUUID env) True) (\<lambda>_.
                  await_then (select_active_subscription (u_id u)) (\<lambda>subscription.
                  eval_js (Inr
                    \<lparr>r_status = 200, r_success = True, r_error = None,
                     r_message = Some ''Login successful'',
                     r_payload = LoginPayload
                       \<lparr>v_id = u_id u, v_email = u_email u,
                        v_firstName = u_first_name u, v_lastName = u_last_name u,
                        v_subscriptionActive = u_subscription_active u\<rparr>
                       (map_option (\<lambda>r. \<lparr>sv_planType = s_plan_type r,
                                          sv_frequency = s_frequency r,
                                          sv_status = s_status r\<rparr>) subscription)
                       (jwt_sign env (u_id u) (u_email u) (jwt_secret env))
                       (randomUUID env)\<rparr>)))))))))"

definition handleUserLogin :: "auth_env \<Rightarrow> json option \<Rightarrow> db \<Rightarrow> response \<times> db" where
  "handleUserLogin env body d = catch_internal (login_try env body d)"

section \<open>Creating a subscription\<close>

subsection \<open>The plan table\<close>

record plan =
  planName :: string
  frequency :: string
  price :: int

definition SUBSCRIPTION_PLANS :: "(string \<times> plan) list" where
  "SUBSCRIPTION_PLANS =
     [(''pro-monthly'', \<lparr>planName = ''Pro Plan'', frequency = ''MONTHLY'', price = 299\<rparr>),
      (''pro-annual'', \<lparr>planName = ''Pro Plan'', frequency = ''ANNUALLY'', price = 2400\<rparr>),
      (''business-monthly'',
         \<lparr>planName = ''Business Plan'', frequency = ''MONTHLY'', price = 1000\<rparr>),
      (''business-annual'',
         \<lparr>planName = ''Business Plan'', frequency = ''ANNUALLY'', price = 10000\<rparr>)]"

text \<open>
  \<open>SUBSCRIPTION_PLANS[planType]\<close> reads the object's own entries and, for the names every
  object inherits, a member of \<open>Object.prototype\<close>: a truthy value with no \<open>planName\<close>,
  \<open>frequency\<close> or \<open>price\<close>.
\<close>

datatype plan_entry = Own plan | Inherited

definition object_prototype_keys :: "string list" where
  "object_prototype_keys =
     [''constructor'', ''__defineGetter__'', ''__defineSetter__'', ''hasOwnProperty'',
      ''__lookupGetter__'', ''__lookupSetter__'', ''isPrototypeOf'',
      ''propertyIsEnumerable'', ''toString'', ''valueOf'', ''__proto__'',
      ''toLocaleString'']"

definition plan_entry_of :: "string \<Rightarrow> plan_entry option" where
  "plan_entry_of k =
     (case map_of SUBSCRIPTION_PLANS k of
        Some p \<Rightarrow> Some (Own p)
      | None \<Rightarrow> if k \<in> set object_prototype_keys then Some Inherited else None)"

fun entry_planName :: "plan_entry \<Rightarrow> string option" where
  "entry_planName (Own p) = Some (planName p)"
| "entry_planName Inherited = None"

fun entry_frequency :: "plan_entry \<Rightarrow> string option" where
  "entry_frequency (Own p) = Some (frequency p)"
| "entry_frequency Inherited = None"

fun entry_price :: "plan_entry \<Rightarrow> int option" where
  "entry_price (Own p) = Some (price p)"
| "entry_price Inherited = None"

subsection \<open>The gateway\<close>

text \<open>
  What the three gateway functions answer on this request, \<open>Inl\<close> the
  \<open>{success: false, error}\<close> they make of an exception of the payment processor's client.
  \<open>getSquareLocation\<close> succeeds with the first active location, or with none. The user id
  goes to the gateway as \<open>userId.toString()\<close>, held here as the number.
\<close>

record customer_data =
  cd_firstName :: string
  cd_lastName :: string
  cd_email :: string
  cd_userId :: int

record subscription_data =
  sd_locationId :: string
  sd_planId :: string
  sd_customerId :: string
  sd_cardId :: string
  sd_priceOverride :: "int option"

record gateway_subscription =
  gs_id :: string
  gs_status :: string
  gs_startDate :: string

record gateway =
  getSquareLocation :: "string + string option"
  createSquareCustomer :: "customer_data \<Rightarrow> string + string"
  createSubscription :: "subscription_data \<Rightarrow> string + gateway_subscription"

datatype gateway_call =
    GetSquareLocation
  | CreateSquareCustomer customer_data
  | CreateSubscription subscription_data

subsection \<open>Statements\<close>

text \<open>\<open>UPDATE users SET square_customer_id = ? WHERE id = ?\<close>; the column is UNIQUE.\<close>

definition update_user_square_customer_id :: "string \<Rightarrow> int \<Rightarrow> unit io" where
  "update_user_square_customer_id c userId =
     run_stmt (\<lambda>d.
       if list_ex (\<lambda>u. u_id u = userId) (users d)
          \<and> list_ex (\<lambda>u. u_id u \<noteq> userId \<and> u_square_customer_id u = Some c) (users d)
       then Inl (D1_ERROR ''UNIQUE constraint failed: users.square_customer_id'')
       else Inr ((), d\<lparr>users :=
         map (\<lambda>u. if u_id u = userId then u\<lparr>u_square_customer_id := Some c\<rparr> else u)
           (users d)\<rparr>))"

text \<open>
  \<open>INSERT INTO subscriptions (user_id, square_subscription_id, plan_type, status,
  price_amount, currency, frequency, started_at, created_at)\<close> with the status \<open>'ACTIVE'\<close>
  and the currency \<open>'GBP'\<close>. A price or frequency that is \<open>undefined\<close> is refused by the
  driver; \<open>square_subscription_id\<close> is UNIQUE.
\<close>

definition insert_subscription ::
  "int \<Rightarrow> string \<Rightarrow> string \<Rightarrow> int option \<Rightarrow> string option \<Rightarrow> string \<Rightarrow> unit io" where
  "insert_subscription userId subscriptionId planType priceAmount freq startDate d =
     (case (priceAmount, freq) of
        (Some pr, Some fr) \<Rightarrow>
          run_stmt (\<lambda>d.
            if list_ex (\<lambda>r. s_square_subscription_id r = Some subscriptionId)
                 (subscriptions d)
            then Inl (D1_ERROR
                   ''UNIQUE constraint failed: subscriptions.square_subscription_id'')
            else Inr ((), d\<lparr>subscriptions := subscriptions d @
              [\<lparr>s_id = next_id (map s_id (subscriptions d)), s_user_id = userId,
                s_square_subscription_id = Some subscriptionId, s_plan_type = planType,
                s_status = SText ''ACTIVE'', s_price_amount = pr, s_currency = ''GBP'',
                s_frequency = fr, s_started_at = Some startDate, s_ended_at = None,
                s_created_at = now d, s_updated_at = None\<rparr>]\<rparr>)) d
      | _ \<Rightarrow> (Inl D1_TYPE_ERROR, d))"

subsection \<open>onRequestPost of create-subscription\<close>

record subscription_request = person_data +
  planType :: "string option"
  paymentToken :: "string option"

text \<open>
  The first \<open>try\<close> block: an existing user with an active subscription ends the request;
  otherwise \<open>userId\<close> is the user found, if any. Its \<open>catch\<close> logs the exception and goes
  on with what \<open>userId\<close> is by then.
\<close>

datatype existing = AlreadyActive | UserId "int option"

definition check_existing_user :: "string \<Rightarrow> db \<Rightarrow> existing \<times> db" where
  "check_existing_user e d =
     (case select_user_by_email e d of
        (Inl err, d1) \<Rightarrow> (UserId None, d1)
      | (Inr None, d1) \<Rightarrow> (UserId None, d1)
      | (Inr (Some existingUser), d1) \<Rightarrow>
          (case select_active_subscription (u_id existingUser) d1 of
             (Inl err, d2) \<Rightarrow> (UserId (Some (u_id existingUser)), d2)
           | (Inr (Some activeSubscription), d2) \<Rightarrow> (AlreadyActive, d2)
           | (Inr None, d2) \<Rightarrow> (UserId (Some (u_id existingUser)), d2)))"

text \<open>
  \<open>if (!userId)\<close>: no user found, or the user with id 0. The \<open>catch\<close> of the insert throws
  \<open>Failed to create user account\<close>.
\<close>

definition create_or_get_user ::
  "subscription_request \<Rightarrow> int option \<Rightarrow> int io" where
  "create_or_get_user requestData userId d =
     (if userId = None \<or> userId = Some 0
      then
        (case insert_user (str (email requestData)) (str (firstName requestData))
                (str (lastName requestData)) None d of
           (Inr (Some userResult), d1) \<Rightarrow> (Inr (u_id userResult), d1)
         | (_, d1) \<Rightarrow> (Inl (Error ''Failed to create user account''), d1))
      else (Inr (case userId of Some i \<Rightarrow> i | None \<Rightarrow> 0), d))"

text \<open>The outer \<open>catch\<close>: status 500 with \<open>error.message || 'Internal server error'\<close>.\<close>

definition catch_message :: "js_error \<Rightarrow> response" where
  "catch_message e =
     failure 500 (if message_of e = [] then ''Internal server error'' else message_of e)"

text \<open>
  The request up to and with the creation of the subscription at the gateway: it ends
  in a response, or with what the rest of the handler needs.
\<close>

record created =
  c_requestData :: subscription_request
  c_planInfo :: plan_entry
  c_userId :: int
  c_squareCustomerId :: string
  c_subscription :: gateway_subscription
  c_db :: db

definition create_at_gateway ::
  "gateway \<Rightarrow> subscription_request option \<Rightarrow> db
     \<Rightarrow> ((response \<times> db) + created) \<times> gateway_call list" where
  "create_at_gateway gw body d =
     (case body of
        None \<Rightarrow> (Inl (catch_message SyntaxError, d), [])
      | Some requestData \<Rightarrow>
          (let missing = missing_fields
                 [(''email'', email requestData), (''firstName'', firstName requestData),
                  (''lastName'', lastName requestData), (''planType'', planType requestData),
                  (''paymentToken'', paymentToken requestData)]
           in if missing \<noteq> []
              then (Inl (failure 400 (''Missing required fields: '' @ join_comma missing), d),
                    [])
              else
                (case plan_entry_of (str (planType requestData)) of
                   None \<Rightarrow>
                     (Inl (failure 400
                        (''Invalid plan type: '' @ str (planType requestData)), d), [])
                 | Some planInfo \<Rightarrow>
                     (case getSquareLocation gw of
                        Inl err \<Rightarrow>
                          (Inl (catch_message
                             (Error (''Failed to get Square location: '' @ err)), d),
                           [GetSquareLocation])
                      | Inr None \<Rightarrow> (Inl (catch_message TypeError, d), [GetSquareLocation])
                      | Inr (Some locationId) \<Rightarrow>
                          (case check_existing_user (str (email requestData)) d of
                             (AlreadyActive, d1) \<Rightarrow>
                               (Inl (failure 409
                                  ''User already has an active subscription'', d1),
                                [GetSquareLocation])
                           | (UserId found, d1) \<Rightarrow>
                               (case create_or_get_user requestData found d1 of
                                  (Inl e, d2) \<Rightarrow>
                                    (Inl (catch_message e, d2), [GetSquareLocation])
                                | (Inr userId, d2) \<Rightarrow>
  (let customerData =
         \<lparr>cd_firstName = str (firstName requestData),
          cd_lastName = str (lastName requestData),
          cd_email = str (email requestData), cd_userId = userId\<rparr>
   in case createSquareCustomer gw customerData of
        Inl err \<Rightarrow>
          (Inl (catch_message (Error (''Failed to create Square customer: '' @ err)), d2),
           [GetSquareLocation, CreateSquareCustomer customerData])
      | Inr squareCustomerId \<Rightarrow>
          (let d3 = snd (update_user_square_customer_id squareCustomerId userId d2);
               subscriptionData =
                 \<lparr>sd_locationId = locationId, sd_planId = str (planType requestData),
                  sd_customerId = squareCustomerId,
                  sd_cardId = str (paymentToken requestData),
                  sd_priceOverride = entry_price planInfo\<rparr>
           in case createSubscription gw subscriptionData of
                Inl err \<Rightarrow>
                  (Inl (catch_message
                     (Error (''Failed to create subscription: '' @ err)), d3),
                   [GetSquareLocation, CreateSquareCustomer customerData,
                    CreateSubscription subscriptionData])
              | Inr subscription \<Rightarrow>
                  (Inr \<lparr>c_requestData = requestData, c_planInfo = planInfo,
                        c_userId = userId, c_squareCustomerId = squareCustomerId,
                        c_subscription = subscription, c_db = d3\<rparr>,
                   [GetSquareLocation, CreateSquareCustomer customerData,
                    CreateSubscription subscriptionData])))))))))"

text \<open>
  The rest: the insert of the local row, whose \<open>catch\<close> logs the exception and nothing
  more, and the response.
\<close>

definition store_subscription :: "created \<Rightarrow> (js_error + unit) \<times> db" where
  "store_subscription c =
     insert_subscription (c_userId c) (gs_id (c_subscription c))
       (str (planType (c_requestData c))) (entry_price (c_planInfo c))
       (entry_frequency (c_planInfo c)) (gs_startDate (c_subscription c)) (c_db c)"

definition created_response :: "created \<Rightarrow> response" where
  "created_response c =
     \<lparr>r_status = 201, r_success = True, r_error = None,
      r_message = Some ''Subscription created successfully'',
      r_payload = SubscriptionPayload
        \<lparr>cs_id = gs_id (c_subscription c),
         cs_planType = str (planType (c_requestData c)),
         cs_planName = entry_planName (c_planInfo c),
         cs_frequency = entry_frequency (c_planInfo c),
         cs_price = entry_price (c_planInfo c), cs_currency = ''GBP'',
         cs_status = gs_status (c_subscription c),
         cs_startDate = gs_startDate (c_subscription c)\<rparr>
        \<lparr>cu_id = c_userId c, cu_email = str (email (c_requestData c)),
         cu_squareCustomerId = c_squareCustomerId c\<rparr>\<rparr>"

definition onRequestPost_create_subscription ::
  "gateway \<Rightarrow> subscription_request option \<Rightarrow> db
     \<Rightarrow> (response \<times> db) \<times> gateway_call list" where
  "onRequestPost_create_subscription gw body d =
     (case create_at_gateway gw body d of
        (Inl answer, calls) \<Rightarrow> (answer, calls)
      | (Inr c, calls) \<Rightarrow> ((created_response c, snd (store_subscription c)), calls))"


section \<open>A store and requests to run the handlers on\<close>

text \<open>
  The text of a whole number as SQLite prints a double: the digits and \<open>.0\<close>.
\<close>

function digits :: "nat \<Rightarrow> string" where
  "digits n = (if n < 10 then [char_of (48 + n)] else digits (n div 10) @ [char_of (48 + n mod 10)])"
  by pat_completeness auto
termination
  by (relation "measure id") auto

definition whole_number_text :: "int \<Rightarrow> string" where
  "whole_number_text n =
     (if n < 0 then ''-'' else []) @ digits (nat \<bar>n\<bar>) @ ''.0''"

definition demo_user :: users_row where
  "demo_user =
     \<lparr>u_id = 3, u_email = ''a@x.com'', u_first_name = ''A'', u_last_name = ''B'',
      u_password_hash = Some ''$2a$12$abcdefghijklmnopqrstuv'',
      u_square_customer_id = Some ''CUST1'', u_subscription_active = True,
      u_email_verified = False, u_created_at = ''2024-01-01 00:00:00'',
      u_updated_at = None, u_last_login_at = None\<rparr>"

definition demo_subscription :: subscriptions_row where
  "demo_subscription =
     \<lparr>s_id = 1, s_user_id = 3, s_square_subscription_id = Some ''SUB1'',
      s_plan_type = ''pro-monthly'', s_status = SText ''ACTIVE'', s_price_amount = 299,
      s_currency = ''GBP'', s_frequency = ''MONTHLY'', s_started_at = Some ''2024-01-01'',
      s_ended_at = None, s_created_at = ''2024-01-01 00:00:00'', s_updated_at = None\<rparr>"

definition demo_db :: db where
  "demo_db =
     \<lparr>users = [demo_user], subscriptions = [demo_subscription], payments = [],
      user_sessions = [], faults = [], now = ''2024-02-01 00:00:00'',
      now_plus_7_days = ''2024-02-08 00:00:00'', number_text = whole_number_text\<rparr>"

definition empty_db :: db where
  "empty_db =
     \<lparr>users = [], subscriptions = [], payments = [], user_sessions = [], faults = [],
      now = ''2024-02-01 00:00:00'', now_plus_7_days = ''2024-02-08 00:00:00'',
      number_text = whole_number_text\<rparr>"

text \<open>The store as the schema leaves it: the two users it inserts, who have no password.\<close>

definition seeded_db :: db where
  "seeded_db =
     empty_db\<lparr>users :=
       [\<lparr>u_id = 1, u_email = ''john@shengencalc.com'', u_first_name = ''John'',
         u_last_name = ''Admin'', u_password_hash = None, u_square_customer_id = None,
         u_subscription_active = True, u_email_verified = True,
         u_created_at = ''2024-01-01 00:00:00'', u_updated_at = None,
         u_last_login_at = None\<rparr>,
        \<lparr>u_id = 2, u_email = ''christine@shengencalc.com'', u_first_name = ''Christine'',
         u_last_name = ''Admin'', u_password_hash = None, u_square_customer_id = None,
         u_subscription_active = True, u_email_verified = True,
         u_created_at = ''2024-01-01 00:00:00'', u_updated_at = None,
         u_last_login_at = None\<rparr>]\<rparr>"

definition event_of :: "string \<Rightarrow> string \<Rightarrow> json \<Rightarrow> json" where
  "event_of ty name ob =
     JObj [(''type'', JStr ty), (''data'', JObj [(''object'', JObj [(name, ob)])])]"

definition signed :: "json \<Rightarrow> webhook_request" where
  "signed ev = \<lparr>wr_signature = Some ''sig'', wr_body = Some ev\<rparr>"

definition canceled_event :: json where
  "canceled_event =
     event_of ''subscription.updated'' ''subscription''
       (JObj [(''id'', JStr ''SUB1''), (''status'', JStr ''CANCELED'')])"

definition demo_invoice :: json where
  "demo_invoice =
     JObj [(''id'', JStr ''INV1''), (''subscriptionId'', JStr ''SUB1''),
           (''totalMoney'', JObj [(''amount'', JNum 299), (''currency'', JStr ''GBP'')])]"

definition payment_made_event :: json where
  "payment_made_event = event_of ''invoice.payment_made'' ''invoice'' demo_invoice"

definition payment_failed_event :: json where
  "payment_failed_event = event_of ''invoice.payment_failed'' ''invoice'' demo_invoice"

definition created_without_data_event :: json where
  "created_without_data_event = JObj [(''type'', JStr ''subscription.created'')]"

text \<open>A payment row for the reference of \<open>demo_invoice\<close>, as an earlier processing would leave it.\<close>

definition earlier_payment :: payments_row where
  "earlier_payment =
     \<lparr>p_id = 1, p_user_id = 3, p_subscription_id = SNull, p_amount = SNum 299,
      p_currency = SText ''GBP'', p_status = ''SUCCESS'', p_square_payment_id = SText ''INV1'',
      p_failure_reason = None, p_created_at = ''2024-01-15 00:00:00''\<rparr>"

text \<open>An event whose type is an object that has no string.\<close>

definition unprintable_type_event :: json where
  "unprintable_type_event = JObj [(''type'', JObj [(''toString'', JNum 1)])]"

text \<open>The number of payment rows that carry an external payment reference.\<close>

definition payment_rows_for :: "string \<Rightarrow> db \<Rightarrow> nat" where
  "payment_rows_for ref d =
     length (filter (\<lambda>p. p_square_payment_id p = SText ref) (payments d))"

text \<open>
  The processing of an event before any \<open>catch\<close>: the read and the log of its type, and
  the \<open>try\<close> block of that type, an exception still an exception.
\<close>

definition process_event :: "json \<Rightarrow> response io" where
  "process_event webhookEvent d =
     (case get_prop (Some webhookEvent) ''type'' of
        Inl e \<Rightarrow> (Inl e, d)
      | Inr ty \<Rightarrow>
          if console_log [ty] \<noteq> Inr ()
          then (Inl TypeError, d)
          else if ty = Some (JStr ''subscription.created'')
          then subscription_created_try webhookEvent d
          else if ty = Some (JStr ''subscription.updated'')
          then subscription_updated_try webhookEvent d
          else if ty = Some (JStr ''invoice.payment_made'')
          then payment_success_try webhookEvent d
          else if ty = Some (JStr ''invoice.payment_failed'')
          then payment_failed_try webhookEvent d
          else (Inr (processed ''Webhook received but not handled''), d))"

text \<open>
  Stand-ins for the libraries: a hash that is not one, its comparison, a token that is
  not signed.
\<close>

definition demo_env :: auth_env where
  "demo_env =
     \<lparr>JWT_SECRET = Some ''secret'',
      bcrypt_hash = (\<lambda>pw rounds. ''$2a$12$'' @ pw),
      bcrypt_compare = (\<lambda>pw h. Inr (h = ''$2a$12$'' @ pw)),
      jwt_sign = (\<lambda>userId em secret. ''token-for-'' @ em),
      randomUUID = ''uuid-1''\<rparr>"

definition demo_registration :: user_data where
  "demo_registration =
     \<lparr>email = Some ''A@X.com'', firstName = Some ''A'', lastName = Some ''B'',
      password = Some ''password1''\<rparr>"

definition demo_registration_again :: user_data where
  "demo_registration_again =
     \<lparr>email = Some ''a@x.COM'', firstName = Some ''A'', lastName = Some ''B'',
      password = Some ''password2''\<rparr>"

text \<open>Another request's registration of \<open>a@x.com\<close>, committed in between.\<close>

definition racing_registration :: "db \<Rightarrow> db" where
  "racing_registration d =
     d\<lparr>users := users d @
       [\<lparr>u_id = next_id (map u_id (users d)), u_email = ''a@x.com'', u_first_name = ''A'',
         u_last_name = ''B'', u_password_hash = Some ''$2a$12$other'',
         u_square_customer_id = None, u_subscription_active = False,
         u_email_verified = False, u_created_at = now d, u_updated_at = None,
         u_last_login_at = None\<rparr>]\<rparr>"

definition login_body :: "string \<Rightarrow> string \<Rightarrow> json" where
  "login_body e p = JObj [(''email'', JStr e), (''password'', JStr p)]"

definition demo_gateway :: gateway where
  "demo_gateway =
     \<lparr>getSquareLocation = Inr (Some ''LOC1''),
      createSquareCustomer = (\<lambda>c. Inr ''CUST2''),
      createSubscription = (\<lambda>s. Inr \<lparr>gs_id = ''SUB2'', gs_status = ''ACTIVE'',
                                        gs_startDate = ''2024-02-01''\<rparr>)\<rparr>"

definition demo_request :: subscription_request where
  "demo_request =
     \<lparr>email = Some ''a@x.com'', firstName = Some ''A'', lastName = Some ''B'',
      planType = Some ''pro-annual'', paymentToken = Some ''tok''\<rparr>"

definition demo_request_upper :: subscription_request where
  "demo_request_upper =
     \<lparr>email = Some ''A@X.com'', firstName = Some ''A'', lastName = Some ''B'',
      planType = Some ''pro-monthly'', paymentToken = Some ''tok''\<rparr>"

definition demo_request_new :: subscription_request where
  "demo_request_new =
     \<lparr>email = Some ''new@x.com'', firstName = Some ''N'', lastName = Some ''U'',
      planType = Some ''pro-monthly'', paymentToken = Some ''tok''\<rparr>"

text \<open>A store that loses the fourth statement it is sent.\<close>

definition failing_db :: db where
  "failing_db = demo_db\<lparr>faults := [False, False, False, True]\<rparr>"

text \<open>A store that answers the first statement it is sent and loses the second.\<close>

definition lost_lookup_db :: db where
  "lost_lookup_db = demo_db\<lparr>faults := [False, True]\<rparr>"


section \<open>Facts about the store\<close>

lemma run_stmt_healthy:
  "faults d = [] \<Longrightarrow>
   run_stmt f d = (case f d of Inl e \<Rightarrow> (Inl e, d) | Inr (r, d') \<Rightarrow> (Inr r, d'))"
  by (simp add: run_stmt_def)

lemma text_eq_text: "text_eq d c (SText x) = (c = Some x)"
  by (cases c) (auto simp: text_eq_def sql_eq_def)

lemma console_log_strings:
  "console_log [] = Inr ()"
  "console_log (Some (JStr s) # vs) = console_log vs"
  "console_log (None # vs) = console_log vs"
  by (simp_all add: console_log_def)

lemma get_prop_total: "get_prop v k = Inr x \<Longrightarrow> get_prop_opt v k = x"
  by (cases "(v, k)" rule: get_prop.cases) auto

lemma find_map_upd:
  "(\<And>r. P (g r) = P r) \<Longrightarrow>
   find P (map (\<lambda>r. if P r then g r else r) xs) = map_option g (find P xs)"
  by (induction xs) auto

lemmas webhook_defs =
  onRequestPost_webhook_def handleSubscriptionCreatedWebhook_def
  handleSubscriptionUpdatedWebhook_def handlePaymentSuccessWebhook_def
  handlePaymentFailedWebhook_def subscription_created_try_def subscription_updated_try_def
  payment_success_try_def payment_failed_try_def await_then_def eval_js_def catch_500_def
  event_object_def invoice_amount_def invoice_currency_def or_else_def

lemmas statement_defs =
  select_user_id_by_square_customer_id_def update_subscription_active_def
  update_subscription_status_def select_subscription_user_id_def
  update_user_subscription_active_def insert_payment_def run_stmt_def sql_eq_def
  text_eq_def next_id_def console_log_def

lemmas demo_defs =
  demo_db_def demo_user_def demo_subscription_def empty_db_def event_of_def signed_def
  canceled_event_def demo_invoice_def payment_made_event_def
  payment_failed_event_def created_without_data_event_def unprintable_type_event_def

section \<open>The webhook handler\<close>

text \<open>
  C9. For a \<open>subscription.updated\<close> event whose subscription has a string \<open>id\<close> and a
  string \<open>status\<close>, on a store that answers its statements, the handler answers 200, every
  local subscription row with that gateway reference has the status of the payload
  afterwards (and the other rows are as they were), and when the status is \<open>CANCELED\<close> or
  \<open>PAUSED\<close> the user who owns the row has \<open>subscription_active\<close> false afterwards.
\<close>

theorem subscription_updated_sets_status:
  assumes "faults d = []"
    and "wr_signature request = Some sg" and "sg \<noteq> []"
    and "wr_body request = Some ev"
    and "get_prop (Some ev) ''type'' = Inr (Some (JStr ''subscription.updated''))"
    and "event_object ev ''subscription'' = Inr subscription"
    and "get_prop subscription ''status'' = Inr (Some (JStr st))"
    and "get_prop subscription ''id'' = Inr (Some (JStr sid))"
  shows "r_status (fst (onRequestPost_webhook request d)) = 200
    \<and> subscriptions (snd (onRequestPost_webhook request d)) =
        map (\<lambda>r. if s_square_subscription_id r = Some sid
                  then r\<lparr>s_status := SText st, s_updated_at := Some (now d)\<rparr> else r)
          (subscriptions d)
    \<and> ((st = ''CANCELED'' \<or> st = ''PAUSED'') \<longrightarrow>
        (\<forall>row. find (\<lambda>r. s_square_subscription_id r = Some sid) (subscriptions d) = Some row \<longrightarrow>
           users (snd (onRequestPost_webhook request d)) =
             map (\<lambda>u. if u_id u = s_user_id row then u\<lparr>u_subscription_active := False\<rparr> else u)
               (users d)))"
proof -
  have idopt: "get_prop_opt subscription ''id'' = Some (JStr sid)"
    using assms(8) by (rule get_prop_total)
  show ?thesis
    using assms idopt
    by (simp add: onRequestPost_webhook_def handleSubscriptionUpdatedWebhook_def
        subscription_updated_try_def
        await_then_def eval_js_def catch_500_def update_subscription_status_def
        run_stmt_healthy text_eq_text console_log_strings select_subscription_user_id_def
        update_user_subscription_active_def processed_def
        find_map_upd [where P = "\<lambda>r. s_square_subscription_id r = Some sid"]
        split: option.splits)
qed

theorem subscription_updated_sets_status_witness:
  "faults demo_db = [] \<and> wr_signature (signed canceled_event) = Some ''sig''
   \<and> r_status (fst (onRequestPost_webhook (signed canceled_event) demo_db)) = 200
   \<and> map s_status (subscriptions (snd (onRequestPost_webhook (signed canceled_event) demo_db)))
       = [SText ''CANCELED'']
   \<and> map u_subscription_active
         (users (snd (onRequestPost_webhook (signed canceled_event) demo_db))) = [False]"
proof -
  have h1: "faults demo_db = []" by (simp add: demo_defs)
  have h2: "wr_signature (signed canceled_event) = Some ''sig''" by (simp add: demo_defs)
  have h3: "''sig'' \<noteq> []" by simp
  have h4: "wr_body (signed canceled_event) = Some canceled_event" by (simp add: demo_defs)
  have h5: "get_prop (Some canceled_event) ''type''
       = Inr (Some (JStr ''subscription.updated''))" by (simp add: demo_defs)
  have h6: "event_object canceled_event ''subscription''
       = Inr (Some (JObj [(''id'', JStr ''SUB1''), (''status'', JStr ''CANCELED'')]))"
    by (simp add: event_object_def demo_defs)
  have h7: "get_prop (Some (JObj [(''id'', JStr ''SUB1''), (''status'', JStr ''CANCELED'')])) ''status''
       = Inr (Some (JStr ''CANCELED''))" by simp
  have h8: "get_prop (Some (JObj [(''id'', JStr ''SUB1''), (''status'', JStr ''CANCELED'')])) ''id''
       = Inr (Some (JStr ''SUB1''))" by simp
  have f: "find (\<lambda>r. s_square_subscription_id r = Some ''SUB1'') (subscriptions demo_db)
       = Some demo_subscription"
    by (simp add: demo_defs)
  from subscription_updated_sets_status [OF h1 h2 h3 h4 h5 h6 h7 h8] f
  show ?thesis using h1 h2
    by (simp add: demo_defs)
qed


section \<open>The payment handlers\<close>

lemma text_eq_number_text:
  "text_eq d c v =
     sql_eq (text_col c) (case v of SNum n \<Rightarrow> SText (number_text d n) | _ \<Rightarrow> v)"
  by (cases v) (simp_all add: text_eq_def)

lemma select_subscription_user_id_payments:
  "select_subscription_user_id v (d\<lparr>payments := ps\<rparr>) =
     (fst (select_subscription_user_id v d),
      (snd (select_subscription_user_id v d))\<lparr>payments := ps\<rparr>)"
  by (simp add: select_subscription_user_id_def run_stmt_def text_eq_number_text
      split: sum.splits list.splits bool.splits cong: sqlval.case_cong)

lemma update_user_subscription_active_payments:
  "update_user_subscription_active b u (d\<lparr>payments := ps\<rparr>) =
     (fst (update_user_subscription_active b u d),
      (snd (update_user_subscription_active b u d))\<lparr>payments := ps\<rparr>)"
  by (simp add: update_user_subscription_active_def run_stmt_def
      split: sum.splits list.splits bool.splits)

lemma insert_payment_without_reference:
  "insert_payment u None a c st pid d = (Inl D1_TYPE_ERROR, d)"
  by (simp add: insert_payment_def)

lemma payment_success_try_payments:
  "payment_success_try ev (d\<lparr>payments := ps\<rparr>) =
     (fst (payment_success_try ev d), (snd (payment_success_try ev d))\<lparr>payments := ps\<rparr>)"
  unfolding payment_success_try_def
  by (simp add: await_then_def eval_js_def select_subscription_user_id_payments
      update_user_subscription_active_payments insert_payment_without_reference
      split: sum.splits prod.splits option.splits)

lemma handlePaymentSuccessWebhook_payments:
  "handlePaymentSuccessWebhook ev (d\<lparr>payments := ps\<rparr>) =
     (fst (handlePaymentSuccessWebhook ev d),
      (snd (handlePaymentSuccessWebhook ev d))\<lparr>payments := ps\<rparr>)"
  by (simp add: handlePaymentSuccessWebhook_def payment_success_try_payments catch_500_def
      split: sum.splits prod.splits)

text \<open>
  C2, as the code has it. The payment-made handler does not look for an earlier payment
  row with the event's reference: it never reads the payments table. Whatever rows
  \<open>ps\<close> that table holds, a row for the same reference included, the handler's answer
  and the users and subscriptions tables it leaves are the same, and the rows \<open>ps\<close> are
  still there, unchanged and in front.
\<close>

theorem payment_made_never_reads_payments:
  "fst (handlePaymentSuccessWebhook ev (d\<lparr>payments := ps\<rparr>))
     = fst (handlePaymentSuccessWebhook ev d)
   \<and> users (snd (handlePaymentSuccessWebhook ev (d\<lparr>payments := ps\<rparr>)))
     = users (snd (handlePaymentSuccessWebhook ev d))
   \<and> subscriptions (snd (handlePaymentSuccessWebhook ev (d\<lparr>payments := ps\<rparr>)))
     = subscriptions (snd (handlePaymentSuccessWebhook ev d))
   \<and> take (length ps) (payments (snd (handlePaymentSuccessWebhook ev (d\<lparr>payments := ps\<rparr>))))
     = ps"
  by (simp add: handlePaymentSuccessWebhook_payments)

theorem payment_made_never_reads_payments_witness:
  "payment_rows_for ''INV1'' (demo_db\<lparr>payments := [earlier_payment]\<rparr>) = 1
   \<and> payment_rows_for ''INV1'' demo_db = 0
   \<and> fst (handlePaymentSuccessWebhook payment_made_event
        (demo_db\<lparr>payments := [earlier_payment]\<rparr>))
     = fst (handlePaymentSuccessWebhook payment_made_event demo_db)
   \<and> take 1 (payments (snd (handlePaymentSuccessWebhook payment_made_event
        (demo_db\<lparr>payments := [earlier_payment]\<rparr>)))) = [earlier_payment]"
  using payment_made_never_reads_payments
      [where ev = payment_made_event and d = demo_db and ps = "[earlier_payment]"]
  by (simp add: payment_rows_for_def earlier_payment_def demo_db_def)

text \<open>
  The same signed payment-made event processed twice on a store that has a subscription
  row for its subscription reference and no payment row: afterwards the number of payment
  rows for the reference \<open>INV1\<close> is nought, not one.
\<close>

theorem payment_made_replay_counterexample:
  "payment_rows_for ''INV1'' demo_db = 0
   \<and> map s_square_subscription_id (subscriptions demo_db) = [Some ''SUB1'']
   \<and> get_prop_opt (Some demo_invoice) ''subscriptionId'' = Some (JStr ''SUB1'')
   \<and> get_prop_opt (Some demo_invoice) ''id'' = Some (JStr ''INV1'')
   \<and> payment_rows_for ''INV1''
       (snd (onRequestPost_webhook (signed payment_made_event)
          (snd (onRequestPost_webhook (signed payment_made_event) demo_db)))) = 0"
  by (simp add: webhook_defs statement_defs demo_defs payment_rows_for_def)


lemma select_subscription_user_id_keeps_payments:
  "select_subscription_user_id v d = (r, d1) \<Longrightarrow> payments d1 = payments d"
  by (auto simp: select_subscription_user_id_def run_stmt_def
      split: sum.splits list.splits bool.splits)

lemma update_user_subscription_active_keeps_payments:
  "update_user_subscription_active b u d = (r, d1) \<Longrightarrow> payments d1 = payments d"
  by (auto simp: update_user_subscription_active_def run_stmt_def
      split: sum.splits list.splits bool.splits)

text \<open>
  Neither payment handler ever adds a payment row, whatever the event and the store: the
  driver refuses the \<open>undefined\<close> that both bind as the row's \<open>subscription_id\<close>, and the
  INSERT is not sent.
\<close>

lemma payment_handlers_add_no_row:
  "payments (snd (handlePaymentSuccessWebhook ev d)) = payments d"
  "payments (snd (handlePaymentFailedWebhook ev d)) = payments d"
  unfolding handlePaymentSuccessWebhook_def payment_success_try_def
    handlePaymentFailedWebhook_def payment_failed_try_def
  by (auto simp: await_then_def eval_js_def catch_500_def insert_payment_without_reference
      split: sum.splits prod.splits option.splits
      dest!: select_subscription_user_id_keeps_payments
        update_user_subscription_active_keeps_payments)



lemma tries_answer_200:
  "subscription_created_try ev d = (Inr r, d') \<Longrightarrow> r_status r = 200"
  "subscription_updated_try ev d = (Inr r, d') \<Longrightarrow> r_status r = 200"
  "payment_success_try ev d = (Inr r, d') \<Longrightarrow> r_status r = 200"
  "payment_failed_try ev d = (Inr r, d') \<Longrightarrow> r_status r = 200"
  by (auto simp: subscription_created_try_def subscription_updated_try_def
      payment_success_try_def payment_failed_try_def await_then_def eval_js_def processed_def
      split: sum.splits prod.splits option.splits if_splits)

lemma catch_500_status:
  "(\<And>r d'. t = (Inr r, d') \<Longrightarrow> r_status r = 200) \<Longrightarrow>
   r_status (fst (catch_500 t)) = (case fst t of Inl e \<Rightarrow> 500 | Inr r \<Rightarrow> 200)"
  by (cases t) (auto simp: catch_500_def failure_def split: sum.splits)

text \<open>
  C4, as the code has it. The webhook handler answers 400 exactly when the signature
  header is missing or empty or the body is not JSON; otherwise it answers 200 when the
  processing of the event (the read and the log of its type, and the \<open>try\<close> block of that
  type with its statements and logs) raises no exception, and 500 when it raises one.
\<close>

theorem webhook_acknowledgement:
  "r_status (fst (onRequestPost_webhook request d)) =
     (if wr_signature request = None \<or> wr_signature request = Some [] then 400
      else case wr_body request of
             None \<Rightarrow> 400
           | Some ev \<Rightarrow> (case fst (process_event ev d) of Inl e \<Rightarrow> 500 | Inr r \<Rightarrow> 200))"
  by (auto simp: onRequestPost_webhook_def process_event_def failure_def processed_def
      handleSubscriptionCreatedWebhook_def handleSubscriptionUpdatedWebhook_def
      handlePaymentSuccessWebhook_def handlePaymentFailedWebhook_def
      catch_500_status tries_answer_200
      split: option.splits sum.splits)

theorem webhook_acknowledgement_witness:
  "r_status (fst (onRequestPost_webhook (signed canceled_event) demo_db)) = 200
   \<and> r_status (fst (onRequestPost_webhook (signed created_without_data_event) demo_db)) = 500
   \<and> r_status (fst (onRequestPost_webhook (signed unprintable_type_event) demo_db)) = 500
   \<and> r_status (fst (onRequestPost_webhook \<lparr>wr_signature = None, wr_body = Some canceled_event\<rparr>
        demo_db)) = 400"
proof -
  have a: "fst (process_event canceled_event demo_db)
      = Inr (processed ''Subscription updated webhook processed'')"
    by (simp add: process_event_def webhook_defs statement_defs demo_defs)
  have b: "fst (process_event created_without_data_event demo_db) = Inl TypeError"
    by (simp add: process_event_def webhook_defs statement_defs demo_defs)
  have c: "fst (process_event unprintable_type_event demo_db) = Inl TypeError"
    by (simp add: process_event_def console_log_def demo_defs)
  show ?thesis
    using webhook_acknowledgement [of "signed canceled_event" demo_db]
      webhook_acknowledgement [of "signed created_without_data_event" demo_db]
      webhook_acknowledgement [of "signed unprintable_type_event" demo_db]
      webhook_acknowledgement [of "\<lparr>wr_signature = None, wr_body = Some canceled_event\<rparr>" demo_db]
      a b c
    by (simp add: signed_def)
qed

text \<open>
  A signed request whose body is the JSON object of a \<open>subscription.created\<close> event
  without \<open>data\<close>: the read of \<open>data.object\<close> throws, and the answer is 500.
\<close>

theorem webhook_failure_answers_500:
  "wr_signature (signed created_without_data_event) = Some ''sig''
   \<and> wr_body (signed created_without_data_event)
       = Some (JObj [(''type'', JStr ''subscription.created'')])
   \<and> r_status (fst (onRequestPost_webhook (signed created_without_data_event) demo_db)) = 500"
  by (simp add: webhook_defs statement_defs demo_defs failure_def)


section \<open>Registration and login\<close>

lemma select_user_by_email_healthy:
  "faults d = [] \<Longrightarrow>
   select_user_by_email e d = (Inr (find (\<lambda>u. u_email u = e) (users d)), d)"
  by (simp add: select_user_by_email_def run_stmt_healthy)

lemma insert_user_inserted:
  assumes "insert_user e fn ln h d = (Inr r, d')"
  shows "\<exists>row. r = Some row \<and> u_email row = e \<and> users d' = users d @ [row]"
  using assms
  by (auto simp: insert_user_def run_stmt_def Let_def
      split: list.splits bool.splits if_splits)

lemma insert_session_users:
  assumes "insert_session userId token b d = (r, d')"
  shows "users d' = users d"
  using assms
  by (auto simp: insert_session_def run_stmt_def split: list.splits bool.splits if_splits)

lemma failure_status [simp]: "r_status (failure st msg) = st"
  by (simp add: failure_def)

lemma registered_row:
  assumes "handleUserRegistration others env (Some r) d = (resp, d')"
    and "r_status resp = 201"
  shows "(\<exists>v token sessionToken. r_payload resp = RegisterPayload v token sessionToken
            \<and> v_email v = toLowerCase (str (email r)))
         \<and> list_ex (\<lambda>u. u_email u = toLowerCase (str (email r))) (users d')"
  using assms
  unfolding handleUserRegistration_def registration_try_def catch_internal_def
  by (auto simp: await_then_def eval_js_def Let_def list_ex_iff
      split: sum.splits prod.splits option.splits if_splits
      dest!: insert_user_inserted insert_session_users)

lemma lowercase_examples:
  "toLowerCase ''A@X.com'' = ''a@x.com''"
  "toLowerCase ''a@x.COM'' = ''a@x.com''"
  "toLowerCase ''a@x.com'' = ''a@x.com''"
  "toLowerCase ''nobody@x.com'' = ''nobody@x.com''"
  "toLowerCase ''john@shengencalc.com'' = ''john@shengencalc.com''"
  by code_simp+

lemmas auth_defs =
  handleUserRegistration_def registration_try_def handleUserLogin_def login_try_def
  catch_internal_def await_then_def eval_js_def missing_fields_def absent_def
  login_body_def
  emailRegex_test_def is_space_def lowercase_examples jwt_secret_def Let_def
  select_user_by_email_def insert_user_def insert_session_def update_last_login_def
  select_active_subscription_def run_stmt_def next_id_def failure_def

lemmas auth_demo_defs =
  demo_env_def demo_registration_def demo_registration_again_def racing_registration_def
  demo_db_def demo_user_def demo_subscription_def empty_db_def seeded_db_def

text \<open>
  C8. A registration that succeeds (status 201) returns the user with the input email
  lower-cased, and a later valid registration whose email lower-cases to the same string
  is refused with status 409 and the message of a duplicate email, whatever its casing.
  The store answers the second request's check (\<open>faults\<close> empty).
\<close>

theorem registration_lowercases_and_refuses_duplicate:
  assumes "handleUserRegistration others env (Some r1) d = (resp1, d1)"
    and "r_status resp1 = 201"
    and "toLowerCase (str (email r2)) = toLowerCase (str (email r1))"
    and "missing_fields [(''email'', email r2), (''firstName'', firstName r2),
           (''lastName'', lastName r2), (''password'', password r2)] = []"
    and "emailRegex_test (str (email r2))"
    and "8 \<le> length (str (password r2))"
    and "faults d1 = []"
  shows "(\<exists>v token sessionToken. r_payload resp1 = RegisterPayload v token sessionToken
            \<and> v_email v = toLowerCase (str (email r1)))
       \<and> handleUserRegistration others' env' (Some r2) d1 =
           (failure 409 ''User already exists with this email'', d1)"
proof -
  note first = registered_row [OF assms(1,2)]
  then have "list_ex (\<lambda>u. u_email u = toLowerCase (str (email r2))) (users d1)"
    using assms(3) by simp
  then obtain u where "find (\<lambda>u. u_email u = toLowerCase (str (email r2))) (users d1) = Some u"
    by (cases "find (\<lambda>u. u_email u = toLowerCase (str (email r2))) (users d1)")
       (auto simp: find_None_iff list_ex_iff)
  then have "handleUserRegistration others' env' (Some r2) d1 =
           (failure 409 ''User already exists with this email'', d1)"
    using assms(4-7)
    by (simp add: handleUserRegistration_def registration_try_def catch_internal_def
        await_then_def eval_js_def select_user_by_email_healthy)
  with first show ?thesis by blast
qed

theorem registration_lowercases_and_refuses_duplicate_witness:
  "r_status (fst (handleUserRegistration id demo_env (Some demo_registration) empty_db)) = 201
   \<and> toLowerCase (str (email demo_registration_again))
       = toLowerCase (str (email demo_registration))
   \<and> fst (handleUserRegistration id demo_env (Some demo_registration_again)
        (snd (handleUserRegistration id demo_env (Some demo_registration) empty_db)))
      = failure 409 ''User already exists with this email''"
proof -
  obtain resp1 d1 where run:
    "handleUserRegistration id demo_env (Some demo_registration) empty_db = (resp1, d1)"
    by (cases "handleUserRegistration id demo_env (Some demo_registration) empty_db")
  have run': "resp1 = fst (handleUserRegistration id demo_env (Some demo_registration) empty_db)"
    "d1 = snd (handleUserRegistration id demo_env (Some demo_registration) empty_db)"
    using run by simp_all
  have h2: "r_status resp1 = 201"
    unfolding run' by (simp add: auth_defs auth_demo_defs)
  have h3: "toLowerCase (str (email demo_registration_again))
      = toLowerCase (str (email demo_registration))"
    by (simp add: auth_demo_defs lowercase_examples)
  have h4: "missing_fields [(''email'', email demo_registration_again),
        (''firstName'', firstName demo_registration_again),
        (''lastName'', lastName demo_registration_again),
        (''password'', password demo_registration_again)] = []"
    by (simp add: auth_demo_defs missing_fields_def absent_def)
  have h5: "emailRegex_test (str (email demo_registration_again))"
    by (simp add: auth_demo_defs emailRegex_test_def is_space_def)
  have h6: "8 \<le> length (str (password demo_registration_again))"
    by (simp add: auth_demo_defs)
  have h7: "faults d1 = []"
    unfolding run' by (simp add: auth_defs auth_demo_defs)
  from registration_lowercases_and_refuses_duplicate
    [OF run h2 h3 h4 h5 h6 h7, of id demo_env] h2 h3
  show ?thesis
    unfolding run' by (simp add: auth_demo_defs)
qed

text \<open>
  A login whose email is unknown and a login whose email is that of a user with a
  password hash, with a string for a password that \<open>bcrypt.compare\<close> finds not to match,
  get the same response: status 401 with the one message \<open>Invalid email or password\<close>.
\<close>

lemma login_unknown_and_mismatch_agree:
  assumes "select_user_by_email (toLowerCase e1) d1 = (Inr None, d1')"
    and "select_user_by_email (toLowerCase e2) d2 = (Inr (Some u), d2')"
    and "e1 \<noteq> []" and "e2 \<noteq> []" and "truthy (Some pw1)" and "p2 \<noteq> []"
    and "u_password_hash u = Some h"
    and "bcrypt_compare env2 p2 h = Inr False"
  shows "fst (handleUserLogin env1 (Some (JObj [(''email'', JStr e1), (''password'', pw1)])) d1)
           = failure 401 ''Invalid email or password''
       \<and> fst (handleUserLogin env2 (Some (login_body e2 p2)) d2)
           = failure 401 ''Invalid email or password''"
  using assms
  by (simp add: handleUserLogin_def login_try_def catch_internal_def await_then_def
      eval_js_def login_body_def)

text \<open>
  C5, the code as it runs. On the store as the schema seeds it, where the two users have
  no password hash, a login with an unknown email is answered 401
  \<open>Invalid email or password\<close>, and a login with the email of a user and any password
  is answered 500 \<open>Internal server error\<close>: \<open>bcrypt.compare\<close> rejects the NULL hash, and
  the \<open>catch\<close> answers for it. On a store whose user has a password hash, a login with that
  user's email and a number for a password is answered 500 as well.
\<close>

theorem login_known_email_is_told_apart:
  "map u_email (users seeded_db) = [''john@shengencalc.com'', ''christine@shengencalc.com'']
   \<and> map u_password_hash (users seeded_db) = [None, None]
   \<and> fst (handleUserLogin demo_env (Some (login_body ''nobody@x.com'' ''password1'')) seeded_db)
       = failure 401 ''Invalid email or password''
   \<and> fst (handleUserLogin demo_env (Some (login_body ''john@shengencalc.com'' ''password1''))
        seeded_db)
       = failure 500 ''Internal server error''
   \<and> map u_email (users demo_db) = [''a@x.com'']
   \<and> fst (handleUserLogin demo_env
        (Some (JObj [(''email'', JStr ''nobody@x.com''), (''password'', JNum 5)])) demo_db)
       = failure 401 ''Invalid email or password''
   \<and> fst (handleUserLogin demo_env
        (Some (JObj [(''email'', JStr ''a@x.com''), (''password'', JNum 5)])) demo_db)
       = failure 500 ''Internal server error''"
  by (simp add: auth_defs auth_demo_defs)

text \<open>
  C3, as the code has it. When the check for an existing user finds none and the store
  then rejects the insert of the user because the email is already there (another request
  registered it in between), the registration answers status 500 with the message
  \<open>Internal server error\<close>: the \<open>catch\<close> does not look at what was thrown. And a
  registration is answered 409 only when its own check for an existing user found one.
\<close>

theorem registration_unique_violation_is_internal_error:
  "(missing_fields [(''email'', email r), (''firstName'', firstName r),
           (''lastName'', lastName r), (''password'', password r)] = []
     \<longrightarrow> emailRegex_test (str (email r))
     \<longrightarrow> 8 \<le> length (str (password r))
     \<longrightarrow> select_user_by_email (toLowerCase (str (email r))) d = (Inr None, checked)
     \<longrightarrow> insert_user (toLowerCase (str (email r))) (str (firstName r)) (str (lastName r))
           (Some (bcrypt_hash env (str (password r)) 12)) (others checked)
         = (Inl (D1_ERROR ''UNIQUE constraint failed: users.email''), refused)
     \<longrightarrow> handleUserRegistration others env (Some r) d =
           (failure 500 ''Internal server error'', refused))
   \<and> (r_status (fst (handleUserRegistration others' env' body' d')) = 409
     \<longrightarrow> (\<exists>r' u. body' = Some r'
           \<and> fst (select_user_by_email (toLowerCase (str (email r'))) d') = Inr (Some u)))"
proof (intro conjI impI)
  assume "missing_fields [(''email'', email r), (''firstName'', firstName r),
           (''lastName'', lastName r), (''password'', password r)] = []"
    and "emailRegex_test (str (email r))"
    and "8 \<le> length (str (password r))"
    and "select_user_by_email (toLowerCase (str (email r))) d = (Inr None, checked)"
    and "insert_user (toLowerCase (str (email r))) (str (firstName r)) (str (lastName r))
           (Some (bcrypt_hash env (str (password r)) 12)) (others checked)
         = (Inl (D1_ERROR ''UNIQUE constraint failed: users.email''), refused)"
  then show "handleUserRegistration others env (Some r) d =
           (failure 500 ''Internal server error'', refused)"
    by (simp add: handleUserRegistration_def registration_try_def catch_internal_def
        await_then_def eval_js_def)
next
  assume "r_status (fst (handleUserRegistration others' env' body' d')) = 409"
  then show "\<exists>r' u. body' = Some r'
           \<and> fst (select_user_by_email (toLowerCase (str (email r'))) d') = Inr (Some u)"
    unfolding handleUserRegistration_def registration_try_def catch_internal_def
    by (auto simp: await_then_def eval_js_def Let_def
        split: sum.splits prod.splits option.splits if_splits)
qed

theorem registration_unique_violation_is_internal_error_witness:
  "select_user_by_email ''a@x.com'' empty_db = (Inr None, empty_db)
   \<and> fst (insert_user ''a@x.com'' ''A'' ''B'' (Some (bcrypt_hash demo_env ''password1'' 12))
        (racing_registration empty_db))
      = Inl (D1_ERROR ''UNIQUE constraint failed: users.email'')
   \<and> handleUserRegistration racing_registration demo_env (Some demo_registration) empty_db
      = (failure 500 ''Internal server error'', racing_registration empty_db)
   \<and> r_status (fst (handleUserRegistration id demo_env (Some demo_registration_again) demo_db))
      = 409
   \<and> fst (select_user_by_email (toLowerCase (str (email demo_registration_again))) demo_db)
      = Inr (Some demo_user)"
proof -
  have h1: "missing_fields [(''email'', email demo_registration),
        (''firstName'', firstName demo_registration),
        (''lastName'', lastName demo_registration),
        (''password'', password demo_registration)] = []"
    by (simp add: auth_demo_defs missing_fields_def absent_def)
  have h2: "emailRegex_test (str (email demo_registration))"
    by (simp add: auth_demo_defs emailRegex_test_def is_space_def)
  have h3: "8 \<le> length (str (password demo_registration))"
    by (simp add: auth_demo_defs)
  have lc: "toLowerCase (str (email demo_registration)) = ''a@x.com''"
    by (simp add: auth_demo_defs lowercase_examples)
  have h4: "select_user_by_email (toLowerCase (str (email demo_registration))) empty_db
      = (Inr None, empty_db)"
    unfolding lc by (simp add: auth_demo_defs select_user_by_email_def run_stmt_def)
  have h5: "insert_user (toLowerCase (str (email demo_registration)))
        (str (firstName demo_registration)) (str (lastName demo_registration))
        (Some (bcrypt_hash demo_env (str (password demo_registration)) 12))
        (racing_registration empty_db)
      = (Inl (D1_ERROR ''UNIQUE constraint failed: users.email''),
         racing_registration empty_db)"
    unfolding lc by (simp add: auth_demo_defs insert_user_def run_stmt_def)
  have h6: "r_status (fst (handleUserRegistration id demo_env (Some demo_registration_again)
        demo_db)) = 409"
    by (simp add: auth_defs auth_demo_defs)
  have found: "fst (select_user_by_email (toLowerCase (str (email demo_registration_again)))
        demo_db) = Inr (Some demo_user)"
    by (simp add: auth_demo_defs select_user_by_email_def run_stmt_def lowercase_examples)
  note both = registration_unique_violation_is_internal_error
    [where others = racing_registration and r = demo_registration and d = empty_db
       and env = demo_env and checked = empty_db
       and refused = "racing_registration empty_db"
       and others' = id and env' = demo_env and body' = "Some demo_registration_again"
       and d' = demo_db]
  from both [THEN conjunct1, rule_format, OF h1 h2 h3 h4 h5]
    both [THEN conjunct2, rule_format, OF h6] h4 h5 h6 found
  show ?thesis
    unfolding lc by (simp add: auth_demo_defs)
qed

text \<open>
  A registration of \<open>A@X.com\<close> on an empty store, with another registration of
  \<open>a@x.com\<close> committed between its check and its insert: status 500, not 409.
\<close>

theorem registration_race_counterexample:
  "users empty_db = []
   \<and> map u_email (users (racing_registration empty_db)) = [''a@x.com'']
   \<and> r_status (fst (handleUserRegistration racing_registration demo_env
        (Some demo_registration) empty_db)) = 500
   \<and> r_error (fst (handleUserRegistration racing_registration demo_env
        (Some demo_registration) empty_db)) = Some ''Internal server error''"
  by (simp add: auth_defs auth_demo_defs)


section \<open>Creating a subscription\<close>

lemma find_unique:
  assumes "distinct (map f xs)" and "x \<in> set xs"
  shows "find (\<lambda>y. f y = f x) xs = Some x"
  using assms by (induction xs) auto

lemma find_member:
  assumes "x \<in> set xs" and "P x"
  shows "\<exists>y. find P xs = Some y"
  using assms by (cases "find P xs") (auto simp: find_None_iff)

lemma insert_subscription_rejected:
  assumes "insert_subscription userId sid pt pr fr sd d = (Inl e, d')"
  shows "subscriptions d' = subscriptions d \<and> users d' = users d
         \<and> payments d' = payments d \<and> user_sessions d' = user_sessions d"
  using assms
  by (auto simp: insert_subscription_def run_stmt_def
      split: option.splits list.splits bool.splits if_splits)

lemma create_at_gateway_calls:
  assumes "create_at_gateway gw body d = (Inr c, calls)"
  shows "\<exists>customerData subscriptionData.
           calls = [GetSquareLocation, CreateSquareCustomer customerData,
                    CreateSubscription subscriptionData]
           \<and> createSubscription gw subscriptionData = Inr (c_subscription c)"
  using assms
  unfolding create_at_gateway_def
  by (auto simp: Let_def split: option.splits sum.splits prod.splits existing.splits if_splits)

lemma run_stmt_subscriptions:
  assumes "\<And>d r d'. stmt d = Inr (r, d') \<Longrightarrow> subscriptions d' = subscriptions d"
  shows "subscriptions (snd (run_stmt stmt d)) = subscriptions d"
  using assms
  by (auto simp: run_stmt_def split: list.splits bool.splits sum.splits)

lemma select_user_by_email_subscriptions:
  "select_user_by_email e d = (r, d') \<Longrightarrow> subscriptions d' = subscriptions d"
  using run_stmt_subscriptions [of "\<lambda>d. Inr (find (\<lambda>u. u_email u = e) (users d), d)" d]
  by (auto simp: select_user_by_email_def)

lemma select_active_subscription_subscriptions:
  "select_active_subscription i d = (r, d') \<Longrightarrow> subscriptions d' = subscriptions d"
  using run_stmt_subscriptions
    [of "\<lambda>d. Inr (find (\<lambda>r. s_user_id r = i \<and> s_status r = SText ''ACTIVE'')
                      (subscriptions d), d)" d]
  by (auto simp: select_active_subscription_def)

lemma check_existing_user_subscriptions:
  "check_existing_user e d = (r, d') \<Longrightarrow> subscriptions d' = subscriptions d"
  unfolding check_existing_user_def
  by (auto split: prod.splits sum.splits option.splits
      dest!: select_user_by_email_subscriptions select_active_subscription_subscriptions)

lemma insert_user_subscriptions:
  "insert_user e fn ln h d = (r, d') \<Longrightarrow> subscriptions d' = subscriptions d"
  by (auto simp: insert_user_def run_stmt_def Let_def
      split: list.splits bool.splits if_splits)

lemma create_or_get_user_subscriptions:
  "create_or_get_user rq found d = (r, d') \<Longrightarrow> subscriptions d' = subscriptions d"
  unfolding create_or_get_user_def
  by (auto split: prod.splits sum.splits option.splits if_splits
      dest!: insert_user_subscriptions)

lemma update_user_square_customer_id_subscriptions:
  "subscriptions (snd (update_user_square_customer_id c i d)) = subscriptions d"
  by (auto simp: update_user_square_customer_id_def run_stmt_def
      split: list.splits bool.splits if_splits)

lemma create_at_gateway_subscriptions:
  assumes "create_at_gateway gw body d = (Inr c, calls)"
  shows "subscriptions (c_db c) = subscriptions d"
  using assms
  unfolding create_at_gateway_def
  by (auto simp: Let_def update_user_square_customer_id_subscriptions
      split: option.splits sum.splits prod.splits existing.splits if_splits
      dest!: check_existing_user_subscriptions create_or_get_user_subscriptions)

text \<open>
  C1, as the code has it. When the gateway has created the subscription and the insert
  of the local row then fails, the exception is logged and dropped: the request is
  answered with status 201, \<open>success: true\<close>, no error and the gateway subscription id in
  its body; the calls to the gateway are the three that created the subscription, none
  that takes it back; and the subscriptions table is as it was before the request, the
  failed insert having added no row.
\<close>

theorem storage_failure_is_answered_as_success:
  assumes "create_at_gateway gw body d = (Inr c, calls)"
    and "store_subscription c = (Inl e, d')"
  shows "onRequestPost_create_subscription gw body d = ((created_response c, d'), calls)
       \<and> r_status (created_response c) = 201
       \<and> r_success (created_response c)
       \<and> r_error (created_response c) = None
       \<and> (\<exists>sv uv. r_payload (created_response c) = SubscriptionPayload sv uv
             \<and> cs_id sv = gs_id (c_subscription c))
       \<and> (\<exists>customerData subscriptionData.
             calls = [GetSquareLocation, CreateSquareCustomer customerData,
                      CreateSubscription subscriptionData]
             \<and> createSubscription gw subscriptionData = Inr (c_subscription c))
       \<and> subscriptions d' = subscriptions d"
proof -
  have a: "onRequestPost_create_subscription gw body d = ((created_response c, d'), calls)"
    using assms by (simp add: onRequestPost_create_subscription_def)
  have "subscriptions d' = subscriptions (c_db c)"
    using assms(2) unfolding store_subscription_def
    by (blast dest: insert_subscription_rejected)
  then have b: "subscriptions d' = subscriptions d"
    using create_at_gateway_subscriptions [OF assms(1)] by simp
  show ?thesis
    using a b create_at_gateway_calls [OF assms(1)]
    by (simp add: created_response_def)
qed

lemmas subscription_defs =
  onRequestPost_create_subscription_def create_at_gateway_def check_existing_user_def
  create_or_get_user_def catch_message_def store_subscription_def created_response_def
  plan_entry_of_def SUBSCRIPTION_PLANS_def object_prototype_keys_def
  update_user_square_customer_id_def insert_subscription_def select_user_by_email_def
  select_active_subscription_def insert_user_def run_stmt_def next_id_def
  missing_fields_def absent_def failure_def Let_def

lemmas subscription_demo_defs =
  demo_gateway_def demo_request_def demo_request_upper_def demo_request_new_def
  failing_db_def lost_lookup_db_def demo_db_def demo_user_def demo_subscription_def

theorem storage_failure_is_answered_as_success_witness:
  "r_status (fst (fst (onRequestPost_create_subscription demo_gateway
       (Some demo_request_new) failing_db))) = 201
   \<and> subscriptions (snd (fst (onRequestPost_create_subscription demo_gateway
       (Some demo_request_new) failing_db))) = [demo_subscription]
   \<and> length (snd (onRequestPost_create_subscription demo_gateway
       (Some demo_request_new) failing_db)) = 3"
proof -
  obtain c calls where cg:
    "create_at_gateway demo_gateway (Some demo_request_new) failing_db = (Inr c, calls)"
    and c: "c_userId c = 4" "c_planInfo c = Own \<lparr>planName = ''Pro Plan'',
              frequency = ''MONTHLY'', price = 299\<rparr>"
      "faults (c_db c) = [True]" "subscriptions (c_db c) = [demo_subscription]"
    by (simp add: subscription_defs subscription_demo_defs)
  have st: "store_subscription c =
      (Inl (D1_ERROR ''store unavailable''), (c_db c)\<lparr>faults := []\<rparr>)"
    using c by (simp add: store_subscription_def insert_subscription_def run_stmt_def)
  have "subscriptions failing_db = [demo_subscription]"
    by (simp add: subscription_demo_defs)
  with storage_failure_is_answered_as_success [OF cg st] c
  show ?thesis by auto
qed

text \<open>
  A request for a new user on a store that loses the insert of the subscription row:
  the gateway has created the subscription \<open>SUB2\<close>, the insert throws, and the answer is
  201 with \<open>success: true\<close> and no error; the store has the one row it had.
\<close>

theorem storage_failure_counterexample:
  "\<not> isl (fst (create_at_gateway demo_gateway (Some demo_request_new) failing_db))
   \<and> gs_id (c_subscription (projr (fst (create_at_gateway demo_gateway
        (Some demo_request_new) failing_db)))) = ''SUB2''
   \<and> fst (store_subscription (projr (fst (create_at_gateway demo_gateway
        (Some demo_request_new) failing_db)))) = Inl (D1_ERROR ''store unavailable'')
   \<and> r_status (fst (fst (onRequestPost_create_subscription demo_gateway
        (Some demo_request_new) failing_db))) = 201
   \<and> r_success (fst (fst (onRequestPost_create_subscription demo_gateway
        (Some demo_request_new) failing_db)))
   \<and> r_error (fst (fst (onRequestPost_create_subscription demo_gateway
        (Some demo_request_new) failing_db))) = None
   \<and> map s_square_subscription_id (subscriptions (snd (fst
        (onRequestPost_create_subscription demo_gateway (Some demo_request_new) failing_db))))
      = [Some ''SUB1'']"
  by (simp add: subscription_defs subscription_demo_defs)

lemma run_stmt_answered:
  assumes "take 1 (faults d) \<noteq> [True]"
  shows "run_stmt stmt d =
     (case stmt (d\<lparr>faults := tl (faults d)\<rparr>) of
        Inl e \<Rightarrow> (Inl e, d\<lparr>faults := tl (faults d)\<rparr>)
      | Inr (r, d') \<Rightarrow> (Inr r, d'))"
proof (cases "faults d")
  case Nil
  then have same: "d\<lparr>faults := []\<rparr> = d"
    by (cases d) simp
  show ?thesis
    using Nil by (simp add: run_stmt_def same split: sum.splits)
next
  case (Cons b fs)
  with assms have "\<not> b" by simp
  with Cons show ?thesis
    by (simp add: run_stmt_def split: sum.splits)
qed

lemma two_answered:
  assumes "True \<notin> set (take 2 fs)"
  shows "take 1 fs \<noteq> [True]" and "take 1 (tl fs) \<noteq> [True]" and "tl (tl fs) = drop 2 fs"
proof -
  show "take 1 fs \<noteq> [True]"
    using assms by (cases fs) auto
  show "take 1 (tl fs) \<noteq> [True]"
    using assms by (cases fs; cases "tl fs") auto
  show "tl (tl fs) = drop 2 fs"
    by (cases fs; cases "tl fs") auto
qed

text \<open>
  C6, as the code has it. A request with all its fields and a plan of the table, for
  which the gateway names a location, whose email as written is that of a user of the
  store who has a subscription row with status \<open>ACTIVE\<close>, on a store that holds each email
  once and loses neither of the next two statements it is sent (the lookup of the user
  and the lookup of an active subscription), is answered with status 409 and the message
  of an active subscription, whatever the plan; the only call to the gateway is the one
  for the location, no customer and no subscription is created there, and the tables of
  the store are as they were.
\<close>

theorem active_subscription_is_refused:
  assumes "True \<notin> set (take 2 (faults d))"
    and "distinct (map u_email (users d))"
    and "u \<in> set (users d)" and "u_email u = str (email requestData)"
    and "s \<in> set (subscriptions d)" and "s_user_id s = u_id u"
    and "s_status s = SText ''ACTIVE''"
    and "missing_fields
           [(''email'', email requestData), (''firstName'', firstName requestData),
            (''lastName'', lastName requestData), (''planType'', planType requestData),
            (''paymentToken'', paymentToken requestData)] = []"
    and "plan_entry_of (str (planType requestData)) = Some planInfo"
    and "getSquareLocation gw = Inr (Some locationId)"
  shows "onRequestPost_create_subscription gw (Some requestData) d =
           ((failure 409 ''User already has an active subscription'',
             d\<lparr>faults := drop 2 (faults d)\<rparr>),
            [GetSquareLocation])"
proof -
  note fs = two_answered [OF assms(1)]
  have "find (\<lambda>y. u_email y = u_email u) (users d) = Some u"
    using assms(2,3) by (rule find_unique)
  then have user: "select_user_by_email (str (email requestData)) d
      = (Inr (Some u), d\<lparr>faults := tl (faults d)\<rparr>)"
    using assms(4) by (simp add: select_user_by_email_def run_stmt_answered [OF fs(1)])
  obtain a where "find (\<lambda>r. s_user_id r = u_id u \<and> s_status r = SText ''ACTIVE'')
      (subscriptions d) = Some a"
    using find_member [OF assms(5), of "\<lambda>r. s_user_id r = u_id u \<and> s_status r = SText ''ACTIVE''"]
      assms(6,7) by blast
  then have active: "select_active_subscription (u_id u) (d\<lparr>faults := tl (faults d)\<rparr>)
      = (Inr (Some a), d\<lparr>faults := drop 2 (faults d)\<rparr>)"
    using fs(2,3) by (simp add: select_active_subscription_def run_stmt_answered)
  have "check_existing_user (str (email requestData)) d
      = (AlreadyActive, d\<lparr>faults := drop 2 (faults d)\<rparr>)"
    by (simp add: check_existing_user_def user active)
  then show ?thesis
    using assms(8-10)
    by (simp add: onRequestPost_create_subscription_def create_at_gateway_def)
qed

theorem active_subscription_is_refused_witness:
  "faults failing_db = [False, False, False, True] \<and> demo_user \<in> set (users failing_db)
   \<and> u_email demo_user = str (email demo_request)
   \<and> s_status demo_subscription = SText ''ACTIVE''
   \<and> plan_entry_of ''pro-annual''
        = Some (Own \<lparr>planName = ''Pro Plan'', frequency = ''ANNUALLY'', price = 2400\<rparr>)
   \<and> onRequestPost_create_subscription demo_gateway (Some demo_request) failing_db =
        ((failure 409 ''User already has an active subscription'',
          failing_db\<lparr>faults := [False, True]\<rparr>),
         [GetSquareLocation])"
proof -
  have f: "faults failing_db = [False, False, False, True]"
    by (simp add: subscription_demo_defs)
  have h1: "True \<notin> set (take 2 (faults failing_db))"
    by (simp add: f)
  have h2: "distinct (map u_email (users failing_db))"
    and h3: "demo_user \<in> set (users failing_db)"
    and h4: "u_email demo_user = str (email demo_request)"
    and h5: "demo_subscription \<in> set (subscriptions failing_db)"
    and h6: "s_user_id demo_subscription = u_id demo_user"
    and h7: "s_status demo_subscription = SText ''ACTIVE''"
    by (simp_all add: subscription_demo_defs)
  have h8: "missing_fields
           [(''email'', email demo_request), (''firstName'', firstName demo_request),
            (''lastName'', lastName demo_request), (''planType'', planType demo_request),
            (''paymentToken'', paymentToken demo_request)] = []"
    by (simp add: subscription_demo_defs missing_fields_def absent_def)
  have p: "plan_entry_of ''pro-annual''
        = Some (Own \<lparr>planName = ''Pro Plan'', frequency = ''ANNUALLY'', price = 2400\<rparr>)"
    by (simp add: plan_entry_of_def SUBSCRIPTION_PLANS_def)
  have h9: "plan_entry_of (str (planType demo_request))
        = Some (Own \<lparr>planName = ''Pro Plan'', frequency = ''ANNUALLY'', price = 2400\<rparr>)"
    using p by (simp add: subscription_demo_defs)
  have h10: "getSquareLocation demo_gateway = Inr (Some ''LOC1'')"
    by (simp add: subscription_demo_defs)
  from active_subscription_is_refused [OF h1 h2 h3 h4 h5 h6 h7 h8 h9 h10] f h3 h4 h7 p
  show ?thesis by simp
qed

text \<open>
  The same request on the same tables, the store answering the lookup of the user and
  losing the lookup of an active subscription: the user \<open>a@x.com\<close> has the \<open>ACTIVE\<close> row
  \<open>SUB1\<close>, the exception is logged and dropped, a customer and a subscription are created
  at the gateway, and the answer is 201; the user has two \<open>ACTIVE\<close> rows afterwards.
\<close>

theorem lost_lookup_counterexample:
  "map u_email (users lost_lookup_db) = [''a@x.com'']
   \<and> email demo_request = Some ''a@x.com''
   \<and> map s_user_id (subscriptions lost_lookup_db) = map u_id (users lost_lookup_db)
   \<and> map s_status (subscriptions lost_lookup_db) = [SText ''ACTIVE'']
   \<and> faults lost_lookup_db = [False, True]
   \<and> r_status (fst (fst (onRequestPost_create_subscription demo_gateway
        (Some demo_request) lost_lookup_db))) = 201
   \<and> snd (onRequestPost_create_subscription demo_gateway (Some demo_request) lost_lookup_db)
      = [GetSquareLocation,
         CreateSquareCustomer \<lparr>cd_firstName = ''A'', cd_lastName = ''B'',
           cd_email = ''a@x.com'', cd_userId = 3\<rparr>,
         CreateSubscription \<lparr>sd_locationId = ''LOC1'', sd_planId = ''pro-annual'',
           sd_customerId = ''CUST2'', sd_cardId = ''tok'', sd_priceOverride = Some 2400\<rparr>]
   \<and> map s_status (subscriptions (snd (fst (onRequestPost_create_subscription demo_gateway
        (Some demo_request) lost_lookup_db)))) = [SText ''ACTIVE'', SText ''ACTIVE'']
   \<and> map s_user_id (subscriptions (snd (fst (onRequestPost_create_subscription demo_gateway
        (Some demo_request) lost_lookup_db)))) = [3, 3]"
  by (simp add: subscription_defs subscription_demo_defs)

text \<open>
  C7, the code at the failing input. The store holds the user \<open>a@x.com\<close>, who has an
  active subscription. A request for \<open>A@X.com\<close> is looked up as written, finds no user,
  inserts a second user row with the email as written and creates a customer and a
  subscription for it at the gateway: status 201, not the 409 of the user it is.
\<close>

theorem create_subscription_email_as_written:
  "toLowerCase (str (email demo_request_upper)) = u_email demo_user
   \<and> map u_email (users demo_db) = [''a@x.com'']
   \<and> r_status (fst (fst (onRequestPost_create_subscription demo_gateway
        (Some demo_request_upper) demo_db))) = 201
   \<and> map u_email (users (snd (fst (onRequestPost_create_subscription demo_gateway
        (Some demo_request_upper) demo_db)))) = [''a@x.com'', ''A@X.com'']
   \<and> map s_user_id (subscriptions (snd (fst (onRequestPost_create_subscription demo_gateway
        (Some demo_request_upper) demo_db)))) = [3, 4]
   \<and> length (snd (onRequestPost_create_subscription demo_gateway
        (Some demo_request_upper) demo_db)) = 3"
  by (simp add: subscription_defs subscription_demo_defs lowercase_examples)

end
